theory Spec2Isabelle
  imports Complex_Main
begin

section \<open>Values, errors and the outside world\<close>

text \<open>
  The values that travel between the script and the instrument. Python's \<open>int\<close> and
  \<open>float\<close> are both \<open>VNum\<close> over the reals: rounding and overflow of floating point are
  not part of this model. \<open>True == 1\<close> and \<open>False == 0\<close> hold in Python, which
  \<open>py_ne\<close> (the operator \<open>!=\<close>) respects.
\<close>

datatype val = VNone | VBool bool | VNum real | VStr string

fun num_view :: "val \<Rightarrow> real option" where
  "num_view (VBool b) = Some (if b then 1 else 0)"
| "num_view (VNum x) = Some x"
| "num_view VNone = None"
| "num_view (VStr s) = None"

definition py_ne :: "val \<Rightarrow> val \<Rightarrow> bool" where
  "py_ne a b =
     (case num_view a of
        Some x \<Rightarrow> (case num_view b of Some y \<Rightarrow> x \<noteq> y | None \<Rightarrow> True)
      | None \<Rightarrow> (case num_view b of Some y \<Rightarrow> True | None \<Rightarrow> a \<noteq> b))"

text \<open>
  The exceptions of the program: Python's built-in ones, and \<open>PermitError\<close>,
  \<open>EnergyError\<close> and \<open>TimeoutError\<close> of the repository's module \<open>exceptions\<close>
  (the last two carry their message).
\<close>

datatype error =
    TypeError | ValueError | ZeroDivisionError | AttributeError | KeyError
  | PermitError | EnergyError string | TimeoutError string

text \<open>
  What the program does to the outside, in order: reads and writes on the control-point
  transport (by resolved channel name), warnings, and sleeps (logging is left out). \<open>EvPut\<close> is the blocking
  \<open>pv.put(val, wait=True)\<close>, \<open>EvPutCallback\<close> the non-blocking
  \<open>pv.put(val, callback=..., callback_data=...)\<close>.
\<close>

datatype event =
    EvGet string
  | EvPut string val
  | EvPutCallback string val
  | EvWarn string
  | EvSleep real

text \<open>
  Everything the program receives from outside is a parameter, collected in one record:
  \<^item> \<open>format\<close>: \<open>template.format(ioc_prefix=prefix)\<close> of Python's \<open>str\<close>, which may raise;
  \<^item> \<open>str_of\<close>: how \<open>str.format\<close> renders a value inside a message;
  \<^item> \<open>float_of\<close>: Python's \<open>float(...)\<close>, which may raise;
  \<^item> \<open>time_at k\<close>: what the \<open>k\<close>-th call of \<open>time.time()\<close> returns;
  \<^item> \<open>get_at name k\<close>: what the transport's \<open>get\<close> returns for channel \<open>name\<close> when it is
    the \<open>k\<close>-th \<open>get\<close> overall;
  \<^item> \<open>latency k\<close>: for the \<open>k\<close>-th non-blocking \<open>put\<close>, how many sleeps of the script pass
    before the transport delivers its completion callback (it is delivered during the next
    sleep after those); \<open>None\<close> when the transport never completes it.
\<close>

record env =
  format :: "string \<Rightarrow> string \<Rightarrow> error + string"
  str_of :: "val \<Rightarrow> string"
  float_of :: "val \<Rightarrow> error + val"
  time_at :: "nat \<Rightarrow> real"
  get_at :: "string \<Rightarrow> nat \<Rightarrow> val"
  latency :: "nat \<Rightarrow> nat option"

section \<open>The data model\<close>

text \<open>
  class \<open>TxmPV\<close>: one descriptor object per control point. \<open>epicsPV\<close> is \<open>_epicsPV\<close>:
  \<open>None\<close>, or the transport object, identified with the channel name it was created for.
  \<open>pv_ioc_prefix\<close> is the descriptor's attribute \<open>ioc_prefix\<close>. \<open>get_kwargs\<close> is left out
  (every descriptor of class \<open>TXM\<close> has the default, empty, one), and so is \<open>self.txm\<close>,
  which is assigned by \<open>__set__\<close> and never read.
\<close>

record TxmPV =
  namestring :: string
  curr_value :: val
  dtype :: "(val \<Rightarrow> error + val) option"
  permit_required :: bool
  wait :: bool
  epicsPV :: "string option"
  pv_ioc_prefix :: string
  put_complete :: bool

text \<open>
  An instance of class \<open>TXM\<close>. \<open>pv_queue\<close> is the instance attribute of that name:
  \<open>None\<close> until the instance assigns it, and then attribute lookup finds the class
  attribute \<open>TXM.pv_queue\<close> instead. Queues hold descriptors, named by their attribute
  name in class \<open>TXM\<close>. \<open>attrs\<close> holds the other instance attributes created by
  assignment.
\<close>

record TXM =
  is_attached :: bool
  has_permit :: bool
  ioc_prefix :: string
  use_shutter_A :: bool
  use_shutter_B :: bool
  zp_diameter :: real
  drn :: real
  pv_queue :: "string list option"
  attrs :: "string \<Rightarrow> val option"

text \<open>
  What all instances share: the descriptors of class \<open>TXM\<close> (by attribute name), the
  class attribute \<open>TXM.pv_queue\<close>, and the outside world: the events so far, how many
  times the clock and the transport have been used, and the non-blocking writes whose
  completion callback \<open>self.complete_put\<close>, with \<open>callback_data=(txm,)\<close>, has not been
  delivered yet (descriptor, session, sleeps still to pass).
\<close>

record world =
  pvs :: "string \<Rightarrow> TxmPV option"
  class_pv_queue :: "string list"
  trace :: "event list"
  n_time :: nat
  n_get :: nat
  n_put :: nat
  inflight :: "(string \<times> TXM \<times> nat option) list"

text \<open>
  How a call ends: it returns a value or raises, and either way leaves the session and
  the shared state as they are at that moment. A loop without a bound takes fuel, and
  the call is \<open>None\<close> when the fuel does not suffice.
\<close>

datatype 'a outcome = Returns 'a TXM world | Raises error TXM world

definition store :: "string \<Rightarrow> TxmPV \<Rightarrow> world \<Rightarrow> world" where
  "store a self w = w\<lparr>pvs := (pvs w)(a \<mapsto> self)\<rparr>"

definition emit :: "event \<Rightarrow> world \<Rightarrow> world" where
  "emit ev w = w\<lparr>trace := trace w @ [ev]\<rparr>"

definition transport_get :: "env \<Rightarrow> string \<Rightarrow> world \<Rightarrow> val \<times> world" where
  "transport_get e nm w =
     (get_at e nm (n_get w), (emit (EvGet nm) w)\<lparr>n_get := Suc (n_get w)\<rparr>)"

definition time_time :: "env \<Rightarrow> world \<Rightarrow> real \<times> world" where
  "time_time e w = (time_at e (n_time w), w\<lparr>n_time := Suc (n_time w)\<rparr>)"

text \<open>The queue that \<open>txm.pv_queue\<close> evaluates to.\<close>

definition session_queue :: "TXM \<Rightarrow> world \<Rightarrow> string list" where
  "session_queue txm w = (case pv_queue txm of Some q \<Rightarrow> q | None \<Rightarrow> class_pv_queue w)"

section \<open>class TxmPV\<close>

text \<open>\<open>__init__\<close>: the assignments, and the check \<open>dtype(default)\<close> before them.\<close>

definition new_TxmPV ::
  "string \<Rightarrow> (val \<Rightarrow> error + val) option \<Rightarrow> val \<Rightarrow> bool \<Rightarrow> bool \<Rightarrow> TxmPV" where
  "new_TxmPV name dt dflt permit wt =
     \<lparr>namestring = name, curr_value = dflt, dtype = dt, permit_required = permit,
      wait = wt, epicsPV = None, pv_ioc_prefix = [], put_complete = True\<rparr>"

definition TxmPV_init ::
  "string \<Rightarrow> (val \<Rightarrow> error + val) option \<Rightarrow> val \<Rightarrow> bool \<Rightarrow> bool \<Rightarrow> error + TxmPV" where
  "TxmPV_init name dt dflt permit wt =
     (case dt of
        None \<Rightarrow> Inr (new_TxmPV name dt dflt permit wt)
      | Some d \<Rightarrow>
          (case d dflt of
             Inl err \<Rightarrow> Inl err
           | Inr _ \<Rightarrow> Inr (new_TxmPV name dt dflt permit wt)))"

definition pv_name :: "env \<Rightarrow> TxmPV \<Rightarrow> TXM \<Rightarrow> error + string" where
  "pv_name e self txm = format e (namestring self) (ioc_prefix txm)"

text \<open>
  \<open>get_epics_PV\<close>: the transport object is created when there is none or when the prefix
  has changed. \<open>self.ioc_prefix\<close> is assigned before the name is formatted, so it stays
  assigned when formatting raises.
\<close>

definition get_epics_PV :: "env \<Rightarrow> TxmPV \<Rightarrow> TXM \<Rightarrow> (error + string) \<times> TxmPV" where
  "get_epics_PV e self txm =
     (let is_cached = (epicsPV self \<noteq> None \<and> pv_ioc_prefix self = ioc_prefix txm) in
      case (if is_cached then epicsPV self else None) of
        Some nm \<Rightarrow> (Inr nm, self)
      | None \<Rightarrow>
          (let self1 = self\<lparr>pv_ioc_prefix := ioc_prefix txm\<rparr> in
           case pv_name e self1 txm of
             Inl err \<Rightarrow> (Inl err, self1)
           | Inr nm \<Rightarrow> (Inr nm, self1\<lparr>epicsPV := Some nm\<rparr>)))"

text \<open>\<open>__get__\<close>, for the descriptor \<open>self\<close> that class \<open>TXM\<close> holds under the name \<open>a\<close>.\<close>

definition typecast :: "string \<Rightarrow> TxmPV \<Rightarrow> TXM \<Rightarrow> world \<Rightarrow> val outcome" where
  "typecast a self txm w =
     (case dtype self of
        None \<Rightarrow> Returns (curr_value self) txm (store a self w)
      | Some d \<Rightarrow>
          (case d (curr_value self) of
             Inl err \<Rightarrow> Raises err txm (store a self w)
           | Inr v \<Rightarrow> Returns v txm (store a (self\<lparr>curr_value := v\<rparr>) w)))"

definition TxmPV_get :: "env \<Rightarrow> string \<Rightarrow> TxmPV \<Rightarrow> TXM \<Rightarrow> world \<Rightarrow> val outcome" where
  "TxmPV_get e a self txm w =
     (if is_attached txm then
        (case get_epics_PV e self txm of
           (Inl err, self1) \<Rightarrow> Raises err txm (store a self1 w)
         | (Inr nm, self1) \<Rightarrow>
             (case transport_get e nm w of
                (v, w1) \<Rightarrow> typecast a (self1\<lparr>curr_value := v\<rparr>) txm w1))
      else typecast a self txm w)"

text \<open>
  \<open>complete_put(self, txm)\<close>. Its loop sleeps and polls the transport; \<open>pause\<close> is the
  sleep of the transport's own thread, where this method runs as a completion callback.
\<close>

definition pause :: "real \<Rightarrow> world \<Rightarrow> world" where
  "pause d w = emit (EvSleep d) w"

fun complete_put_loop ::
  "env \<Rightarrow> nat \<Rightarrow> string \<Rightarrow> TxmPV \<Rightarrow> TXM \<Rightarrow> bool \<Rightarrow> world \<Rightarrow> (TxmPV outcome) option" where
  "complete_put_loop e 0 a self txm is_not_done w =
     (if is_not_done \<and> wait self then None else Some (Returns self txm w))"
| "complete_put_loop e (Suc n) a self txm is_not_done w =
     (if is_not_done \<and> wait self then
        (let w1 = pause (1 / 100) w in
         case get_epics_PV e self txm of
           (Inl err, self1) \<Rightarrow> Some (Raises err txm (store a self1 w1))
         | (Inr nm, self1) \<Rightarrow>
             (case transport_get e nm w1 of
                (curr_val, w2) \<Rightarrow>
                  complete_put_loop e n a self1 txm (py_ne curr_val (curr_value self1)) w2))
      else Some (Returns self txm w))"

definition complete_put ::
  "env \<Rightarrow> nat \<Rightarrow> string \<Rightarrow> TxmPV \<Rightarrow> TXM \<Rightarrow> world \<Rightarrow> (unit outcome) option" where
  "complete_put e fuel a self txm w =
     (let is_not_done = (if is_attached txm then True else False) in
      case complete_put_loop e fuel a self txm is_not_done w of
        None \<Rightarrow> None
      | Some (Raises err t w1) \<Rightarrow> Some (Raises err t w1)
      | Some (Returns self1 t w1) \<Rightarrow>
          Some (Returns () t (store a (self1\<lparr>put_complete := True\<rparr>) w1)))"

text \<open>
  \<open>__set__\<close>. The warning's text formats the bound method \<open>self.pv_name\<close> (the method is
  not called), which Python renders with the descriptor's \<open>__repr__\<close>. In the blocking
  branch \<open>self.complete_put()\<close> is called without the argument \<open>txm\<close> that
  \<open>complete_put(self, txm)\<close> requires, which raises \<open>TypeError\<close> before the method's
  body runs.
\<close>

definition warn_msg :: "TxmPV \<Rightarrow> string" where
  "warn_msg self =
     ''PV <bound method TxmPV.pv_name of <TxmPV: '' @ namestring self @
     ''>> was not set because TXM doesn'' @ [CHR 0x27] @ ''t have permission.''"

definition queue_append :: "string \<Rightarrow> TXM \<Rightarrow> world \<Rightarrow> TXM \<times> world" where
  "queue_append a txm w =
     (case pv_queue txm of
        Some q \<Rightarrow> (txm\<lparr>pv_queue := Some (q @ [a])\<rparr>, w)
      | None \<Rightarrow> (txm, w\<lparr>class_pv_queue := class_pv_queue w @ [a]\<rparr>))"

definition put_callback :: "env \<Rightarrow> string \<Rightarrow> string \<Rightarrow> val \<Rightarrow> TXM \<Rightarrow> world \<Rightarrow> world" where
  "put_callback e nm a v txm w =
     (emit (EvPutCallback nm v) w)
       \<lparr>n_put := Suc (n_put w), inflight := inflight w @ [(a, txm, latency e (n_put w))]\<rparr>"

definition TxmPV_set ::
  "env \<Rightarrow> string \<Rightarrow> TxmPV \<Rightarrow> val \<Rightarrow> TXM \<Rightarrow> world \<Rightarrow> unit outcome" where
  "TxmPV_set e a self v txm w =
     (if is_attached txm \<and> permit_required self \<and> \<not> has_permit txm then
        Returns () txm (store a self (emit (EvWarn (warn_msg self)) w))
      else
        (let self1 = self\<lparr>curr_value := v\<rparr> in
         if is_attached txm then
           (case get_epics_PV e self1 txm of
              (Inl err, self2) \<Rightarrow> Raises err txm (store a self2 w)
            | (Inr nm, self2) \<Rightarrow>
                (let self3 = self2\<lparr>put_complete := False\<rparr> in
                 case queue_append a txm w of
                   (txm1, w1) \<Rightarrow>
                     if wait self3 then
                       Raises TypeError txm1 (store a self3 (emit (EvPut nm v) w1))
                     else
                       Returns () txm1 (store a self3 (put_callback e nm a v txm1 w1))))
         else Returns () txm (store a (self1\<lparr>put_complete := True\<rparr>) w)))"

section \<open>Time passing\<close>

text \<open>
  \<open>time.sleep\<close> in the script's thread. While the script sleeps, the transport delivers
  the completion callbacks that are due, each one a call \<open>complete_put(txm)\<close> on its
  descriptor; an exception of a callback stays in the transport's thread. The callbacks
  not yet due are one sleep closer afterwards.
\<close>

definition due :: "string \<times> TXM \<times> nat option \<Rightarrow> bool" where
  "due c = (snd (snd c) = Some 0)"

definition tick :: "string \<times> TXM \<times> nat option \<Rightarrow> string \<times> TXM \<times> nat option" where
  "tick c = (fst c, fst (snd c), map_option (\<lambda>k. k - 1) (snd (snd c)))"

fun run_callbacks ::
  "env \<Rightarrow> nat \<Rightarrow> (string \<times> TXM \<times> nat option) list \<Rightarrow> world \<Rightarrow> world option" where
  "run_callbacks e fuel [] w = Some w"
| "run_callbacks e fuel ((a, t, r) # cs) w =
     (case pvs w a of
        None \<Rightarrow> run_callbacks e fuel cs w
      | Some self \<Rightarrow>
          (case complete_put e fuel a self t w of
             None \<Rightarrow> None
           | Some (Returns _ _ w1) \<Rightarrow> run_callbacks e fuel cs w1
           | Some (Raises _ _ w1) \<Rightarrow> run_callbacks e fuel cs w1))"

definition sleep :: "env \<Rightarrow> nat \<Rightarrow> real \<Rightarrow> world \<Rightarrow> world option" where
  "sleep e fuel d w =
     run_callbacks e fuel (filter due (inflight w))
       ((emit (EvSleep d) w)\<lparr>inflight := map tick (filter (\<lambda>c. \<not> due c) (inflight w))\<rparr>)"

section \<open>class TXM\<close>

definition E_RANGE :: "real \<times> real" where
  "E_RANGE = (5, 10)"

definition POLL_INTERVAL :: real where
  "POLL_INTERVAL = 1 / 100"

definition py_str :: "env \<Rightarrow> val \<Rightarrow> error + val" where
  "py_str e v = Inr (VStr (str_of e v))"

text \<open>
  The descriptors of the class body, in the order of the source. The two descriptors
  that declare a \<open>dtype\<close> pass the check of \<open>__init__\<close> (\<open>str('')\<close> and \<open>float(8.6)\<close>).
\<close>

definition TXM_pvs :: "env \<Rightarrow> (string \<times> TxmPV) list" where
  "TXM_pvs e =
     [(''Cam1_ImageMode'', new_TxmPV ''{ioc_prefix}cam1:ImageMode'' None VNone False False),
      (''Cam1_ArrayCallbacks'', new_TxmPV ''{ioc_prefix}cam1:ArrayCallbacks'' None VNone False False),
      (''Cam1_AcquirePeriod'', new_TxmPV ''{ioc_prefix}cam1:AcquirePeriod'' None VNone False False),
      (''Cam1_TriggerMode'', new_TxmPV ''{ioc_prefix}cam1:TriggerMode'' None VNone False False),
      (''Cam1_SoftwareTrigger'', new_TxmPV ''{ioc_prefix}cam1:SoftwareTrigger'' None VNone False False),
      (''Cam1_AcquireTime'', new_TxmPV ''{ioc_prefix}cam1:AcquireTime'' None VNone False False),
      (''Cam1_FrameRateOnOff'', new_TxmPV ''{ioc_prefix}cam1:FrameRateOnOff'' None VNone False False),
      (''Cam1_FrameType'', new_TxmPV ''{ioc_prefix}cam1:FrameType'' None VNone False False),
      (''Cam1_NumImages'', new_TxmPV ''{ioc_prefix}cam1:NumImages'' None VNone False False),
      (''Cam1_Acquire'', new_TxmPV ''{ioc_prefix}cam1:Acquire'' None VNone False False),
      (''CCD_Motor'', new_TxmPV ''WHAT GOES HERE!?'' None (VNum 500) False False),
      (''HDF1_AutoSave'', new_TxmPV ''{ioc_prefix}HDF1:AutoSave'' None VNone False False),
      (''HDF1_DeleteDriverFile'', new_TxmPV ''{ioc_prefix}HDF1:DeleteDriverFile'' None VNone False False),
      (''HDF1_EnableCallbacks'', new_TxmPV ''{ioc_prefix}HDF1:EnableCallbacks'' None VNone False False),
      (''HDF1_BlockingCallbacks'', new_TxmPV ''{ioc_prefix}HDF1:BlockingCallbacks'' None VNone False False),
      (''HDF1_FileWriteMode'', new_TxmPV ''{ioc_prefix}HDF1:FileWriteMode'' None VNone False False),
      (''HDF1_NumCapture'', new_TxmPV ''{ioc_prefix}HDF1:NumCapture'' None VNone False False),
      (''HDF1_Capture'', new_TxmPV ''{ioc_prefix}HDF1:Capture'' None VNone False False),
      (''HDF1_Capture_RBV'', new_TxmPV ''{ioc_prefix}HDF1:Capture_RBV'' None VNone False False),
      (''HDF1_FileName'', new_TxmPV ''{ioc_prefix}HDF1:FileName'' None VNone False False),
      (''HDF1_FullFileName_RBV'', new_TxmPV ''{ioc_prefix}HDF1:FullFileName_RBV'' (Some (py_str e)) (VStr []) False False),
      (''HDF1_FileTemplate'', new_TxmPV ''{ioc_prefix}HDF1:FileTemplate'' None VNone False False),
      (''HDF1_ArrayPort'', new_TxmPV ''{ioc_prefix}HDF1:NDArrayPort'' None VNone False False),
      (''Motor_SampleX'', new_TxmPV ''32idcTXM:mcs:c1:m2.VAL'' None VNone False False),
      (''Motor_SampleY'', new_TxmPV ''32idcTXM:xps:c1:m7.VAL'' None VNone False False),
      (''Motor_SampleRot'', new_TxmPV ''32idcTXM:ens:c1:m1.VAL'' None VNone False False),
      (''Motor_SampleZ'', new_TxmPV ''32idcTXM:mcs:c1:m1.VAL'' None VNone False False),
      (''Motor_X_Tile'', new_TxmPV ''32idc01:m33.VAL'' None VNone False False),
      (''Motor_Y_Tile'', new_TxmPV ''32idc02:m15.VAL'' None VNone False False),
      (''ShutterA_Open'', new_TxmPV ''32idb:rshtrA:Open'' None VNone True False),
      (''ShutterA_Close'', new_TxmPV ''32idb:rshtrA:Close'' None VNone True False),
      (''ShutterA_Move_Status'', new_TxmPV ''PB:32ID:STA_A_FES_CLSD_PL'' None (VNum 0) False False),
      (''ShutterB_Open'', new_TxmPV ''32idb:fbShutter:Open.PROC'' None VNone True False),
      (''ShutterB_Close'', new_TxmPV ''32idb:fbShutter:Close.PROC'' None VNone True False),
      (''ShutterB_Move_Status'', new_TxmPV ''PB:32ID:STA_B_SBS_CLSD_PL'' None (VNum 0) False False),
      (''ExternalShutter_Trigger'', new_TxmPV ''32idcTXM:shutCam:go'' None VNone True False),
      (''Fly_ScanDelta'', new_TxmPV ''32idcTXM:eFly:scanDelta'' None VNone False False),
      (''Fly_StartPos'', new_TxmPV ''32idcTXM:eFly:startPos'' None VNone False False),
      (''Fly_EndPos'', new_TxmPV ''32idcTXM:eFly:endPos'' None VNone False False),
      (''Fly_SlewSpeed'', new_TxmPV ''32idcTXM:eFly:slewSpeed'' None VNone False False),
      (''Fly_Taxi'', new_TxmPV ''32idcTXM:eFly:taxi'' None VNone False False),
      (''Fly_Run'', new_TxmPV ''32idcTXM:eFly:fly'' None VNone False False),
      (''Fly_ScanControl'', new_TxmPV ''32idcTXM:eFly:scanControl'' None VNone False False),
      (''Fly_Calc_Projections'', new_TxmPV ''32idcTXM:eFly:calcNumTriggers'' None VNone False False),
      (''Reset_Theta'', new_TxmPV ''32idcTXM:SG_RdCntr:reset.PROC'' None VNone False False),
      (''Proc_Theta'', new_TxmPV ''32idcTXM:SG_RdCntr:cVals.PROC'' None VNone False False),
      (''Theta_Array'', new_TxmPV ''32idcTXM:eFly:motorPos.AVAL'' None VNone False False),
      (''Theta_Cnt'', new_TxmPV ''32idcTXM:SG_RdCntr:aSub.VALB'' None VNone False False),
      (''Image1_Callbacks'', new_TxmPV ''{ioc_prefix}image1:EnableCallbacks'' None VNone False False),
      (''ExternShutterExposure'', new_TxmPV ''32idcTXM:shutCam:tExpose'' None VNone False False),
      (''SetSoftGlueForStep'', new_TxmPV ''32idcTXM:SG3:MUX2-1_SEL_Signal'' None VNone False False),
      (''ExternShutterDelay'', new_TxmPV ''32idcTXM:shutCam:tDly'' None VNone False False),
      (''Interferometer'', new_TxmPV ''32idcTXM:SG2:UpDnCntr-1_COUNTS_s'' None VNone False False),
      (''Interferometer_Update'', new_TxmPV ''32idcTXM:SG2:UpDnCntr-1_COUNTS_SCAN.PROC'' None VNone False False),
      (''Interferometer_Reset'', new_TxmPV ''32idcTXM:SG_RdCntr:reset.PROC'' None VNone False False),
      (''Interferometer_Cnt'', new_TxmPV ''32idcTXM:SG_RdCntr:aSub.VALB'' None VNone False False),
      (''Interferometer_Arr'', new_TxmPV ''32idcTXM:SG_RdCntr:cVals.AA'' None VNone False False),
      (''Interferometer_Proc_Arr'', new_TxmPV ''32idcTXM:SG_RdCntr:cVals.PROC'' None VNone False False),
      (''Interferometer_Val'', new_TxmPV ''32idcTXM:userAve4.VAL'' None VNone False False),
      (''Interferometer_Mode'', new_TxmPV ''32idcTXM:userAve4_mode.VAL'' None VNone False False),
      (''Interferometer_Acquire'', new_TxmPV ''32idcTXM:userAve4_acquire.PROC'' None VNone False False),
      (''Proc1_Callbacks'', new_TxmPV ''{ioc_prefix}Proc1:EnableCallbacks'' None VNone False False),
      (''Proc1_ArrayPort'', new_TxmPV ''{ioc_prefix}Proc1:NDArrayPort'' None VNone False False),
      (''Proc1_Filter_Enable'', new_TxmPV ''{ioc_prefix}Proc1:EnableFilter'' None VNone False False),
      (''Proc1_Filter_Type'', new_TxmPV ''{ioc_prefix}Proc1:FilterType'' None VNone False False),
      (''Proc1_Num_Filter'', new_TxmPV ''{ioc_prefix}Proc1:NumFilter'' None VNone False False),
      (''Proc1_Reset_Filter'', new_TxmPV ''{ioc_prefix}Proc1:ResetFilter'' None VNone False False),
      (''Proc1_AutoReset_Filter'', new_TxmPV ''{ioc_prefix}Proc1:AutoResetFilter'' None VNone False False),
      (''Proc1_Filter_Callbacks'', new_TxmPV ''{ioc_prefix}Proc1:FilterCallbacks'' None VNone False False),
      (''TIFF1_AutoSave'', new_TxmPV ''{ioc_prefix}TIFF1:AutoSave'' None VNone False False),
      (''TIFF1_DeleteDriverFile'', new_TxmPV ''{ioc_prefix}TIFF1:DeleteDriverFile'' None VNone False False),
      (''TIFF1_EnableCallbacks'', new_TxmPV ''{ioc_prefix}TIFF1:EnableCallbacks'' None VNone False False),
      (''TIFF1_BlockingCallbacks'', new_TxmPV ''{ioc_prefix}TIFF1:BlockingCallbacks'' None VNone False False),
      (''TIFF1_FileWriteMode'', new_TxmPV ''{ioc_prefix}TIFF1:FileWriteMode'' None VNone False False),
      (''TIFF1_NumCapture'', new_TxmPV ''{ioc_prefix}TIFF1:NumCapture'' None VNone False False),
      (''TIFF1_Capture'', new_TxmPV ''{ioc_prefix}TIFF1:Capture'' None VNone False False),
      (''TIFF1_FullFileName_RBV'', new_TxmPV ''{ioc_prefix}TIFF1:FullFileName_RBV'' None VNone False False),
      (''TIFF1_FileNumber'', new_TxmPV ''{ioc_prefix}TIFF1:FileNumber'' None VNone False False),
      (''TIFF1_FileName'', new_TxmPV ''{ioc_prefix}TIFF1:FileName'' None VNone False False),
      (''TIFF1_ArrayPort'', new_TxmPV ''{ioc_prefix}TIFF1:NDArrayPort'' None VNone False False),
      (''DCMmvt'', new_TxmPV ''32ida:KohzuModeBO.VAL'' None VNone True False),
      (''GAPputEnergy'', new_TxmPV ''32id:ID32us_energy'' None VNone True False),
      (''EnergyWait'', new_TxmPV ''ID32us:Busy'' None VNone False False),
      (''DCMputEnergy'', new_TxmPV ''32ida:BraggEAO.VAL'' (Some (float_of e)) (VNum (86 / 10)) True False)]"

definition TXM_class :: "env \<Rightarrow> world" where
  "TXM_class e =
     \<lparr>pvs = map_of (TXM_pvs e), class_pv_queue = [], trace = [],
      n_time = 0, n_get = 0, n_put = 0, inflight = []\<rparr>"

text \<open>\<open>__init__\<close> of class \<open>TXM\<close>, every argument given.\<close>

definition TXM_init :: "bool \<Rightarrow> bool \<Rightarrow> string \<Rightarrow> bool \<Rightarrow> bool \<Rightarrow> real \<Rightarrow> real \<Rightarrow> TXM" where
  "TXM_init permit attached prefix shutter_A shutter_B zp d =
     \<lparr>is_attached = attached, has_permit = permit, ioc_prefix = prefix,
      use_shutter_A = shutter_A, use_shutter_B = shutter_B, zp_diameter = zp, drn = d,
      pv_queue = None, attrs = Map.empty\<rparr>"

text \<open>
  Attribute access on an instance, \<open>getattr(self, name)\<close> and \<open>self.name = v\<close>: a
  descriptor of the class takes the access; any other name is a plain instance
  attribute. The methods, class constants and constructor fields of \<open>TXM\<close> are not
  control points and are not looked up here.
\<close>

definition getattr :: "env \<Rightarrow> string \<Rightarrow> TXM \<Rightarrow> world \<Rightarrow> val outcome" where
  "getattr e name txm w =
     (case pvs w name of
        Some self \<Rightarrow> TxmPV_get e name self txm w
      | None \<Rightarrow>
          (case attrs txm name of
             Some v \<Rightarrow> Returns v txm w
           | None \<Rightarrow> Raises AttributeError txm w))"

definition setattr :: "env \<Rightarrow> string \<Rightarrow> val \<Rightarrow> TXM \<Rightarrow> world \<Rightarrow> unit outcome" where
  "setattr e name v txm w =
     (case pvs w name of
        Some self \<Rightarrow> TxmPV_set e name self v txm w
      | None \<Rightarrow> Returns () (txm\<lparr>attrs := (attrs txm)(name \<mapsto> v)\<rparr>) w)"

text \<open>Sequencing: what follows runs when the call before it has returned.\<close>

definition bind ::
  "'a outcome option \<Rightarrow> ('a \<Rightarrow> TXM \<Rightarrow> world \<Rightarrow> 'b outcome option) \<Rightarrow> 'b outcome option" where
  "bind m f =
     (case m of
        None \<Rightarrow> None
      | Some (Raises err t w) \<Rightarrow> Some (Raises err t w)
      | Some (Returns x t w) \<Rightarrow> f x t w)"

text \<open>\<open>flush_pvs\<close>: sleep until every descriptor of the queue has \<open>put_complete\<close>.\<close>

definition all_put_complete :: "string list \<Rightarrow> world \<Rightarrow> bool" where
  "all_put_complete q w =
     list_all (\<lambda>a. case pvs w a of Some self \<Rightarrow> put_complete self | None \<Rightarrow> True) q"

fun flush_pvs :: "env \<Rightarrow> nat \<Rightarrow> TXM \<Rightarrow> world \<Rightarrow> unit outcome option" where
  "flush_pvs e 0 txm w =
     (if \<not> all_put_complete (session_queue txm w) w then None
      else Some (Returns () (txm\<lparr>pv_queue := Some []\<rparr>) w))"
| "flush_pvs e (Suc n) txm w =
     (if \<not> all_put_complete (session_queue txm w) w then
        (case sleep e n (1 / 100) w of
           None \<Rightarrow> None
         | Some w1 \<Rightarrow> flush_pvs e n txm w1)
      else Some (Returns () (txm\<lparr>pv_queue := Some []\<rparr>) w))"

text \<open>
  The context manager \<open>wait_pvs\<close>: what runs before the \<open>yield\<close>, and the whole
  \<open>with self.wait_pvs(): body\<close>. The generator has no \<open>try\<close>: when the body raises,
  the code after the \<open>yield\<close> does not run.
\<close>

definition wait_pvs_enter :: "env \<Rightarrow> nat \<Rightarrow> TXM \<Rightarrow> world \<Rightarrow> unit outcome option" where
  "wait_pvs_enter e fuel txm w =
     bind (flush_pvs e fuel txm w) (\<lambda>_ t w1. Some (Returns () (t\<lparr>pv_queue := Some []\<rparr>) w1))"

definition wait_pvs ::
  "env \<Rightarrow> nat \<Rightarrow> (TXM \<Rightarrow> world \<Rightarrow> unit outcome option) \<Rightarrow> TXM \<Rightarrow> world \<Rightarrow> unit outcome option" where
  "wait_pvs e fuel body txm w =
     bind (wait_pvs_enter e fuel txm w) (\<lambda>_ t1 w1.
     bind (body t1 w1) (\<lambda>_ t2 w2.
     flush_pvs e fuel t2 w2))"

text \<open>\<open>wait_pv\<close>. A call that leaves the loop without \<open>return\<close> returns \<open>None\<close>.\<close>

definition timeout_msg :: "env \<Rightarrow> string \<Rightarrow> val \<Rightarrow> real \<Rightarrow> string" where
  "timeout_msg e name target_val timeout =
     ''Timed out '' @ [CHR 0x27] @ name @ [CHR 0x27] @ '' ('' @ str_of e target_val @
     '') after '' @ str_of e (VNum timeout) @ ''s''"

fun wait_pv_loop ::
  "env \<Rightarrow> nat \<Rightarrow> string \<Rightarrow> val \<Rightarrow> real \<Rightarrow> real \<Rightarrow> TXM \<Rightarrow> world \<Rightarrow> val outcome option" where
  "wait_pv_loop e 0 name target_val timeout startTime txm w =
     (if is_attached txm then None else Some (Returns VNone txm w))"
| "wait_pv_loop e (Suc n) name target_val timeout startTime txm w =
     (if is_attached txm then
        (case getattr e name txm w of
           Raises err t1 w1 \<Rightarrow> Some (Raises err t1 w1)
         | Returns pv_val t1 w1 \<Rightarrow>
             if py_ne pv_val target_val then
               (if timeout > - 1 then
                  (case time_time e w1 of
                     (curTime, w2) \<Rightarrow>
                       (let diffTime = curTime - startTime in
                        if diffTime \<ge> timeout then
                          Some (Raises (TimeoutError (timeout_msg e name target_val timeout)) t1 w2)
                        else
                          (case sleep e n (1 / 100) w2 of
                             None \<Rightarrow> None
                           | Some w3 \<Rightarrow>
                               wait_pv_loop e n name target_val timeout startTime t1 w3)))
                else
                  (case sleep e n (1 / 100) w1 of
                     None \<Rightarrow> None
                   | Some w3 \<Rightarrow> wait_pv_loop e n name target_val timeout startTime t1 w3))
             else Some (Returns (VBool True) t1 w1))
      else Some (Returns VNone txm w))"

definition wait_pv ::
  "env \<Rightarrow> nat \<Rightarrow> string \<Rightarrow> val \<Rightarrow> real \<Rightarrow> TXM \<Rightarrow> world \<Rightarrow> val outcome option" where
  "wait_pv e fuel name target_val timeout txm w =
     (case sleep e fuel POLL_INTERVAL w of
        None \<Rightarrow> None
      | Some w1 \<Rightarrow>
          (case time_time e w1 of
             (startTime, w2) \<Rightarrow> wait_pv_loop e fuel name target_val timeout startTime txm w2))"

text \<open>The decorator \<open>permit_required\<close>.\<close>

definition permit_required_decorator ::
  "(TXM \<Rightarrow> world \<Rightarrow> 'a outcome option) \<Rightarrow> TXM \<Rightarrow> world \<Rightarrow> 'a outcome option" where
  "permit_required_decorator real_func obj w =
     (if has_permit obj then real_func obj w else Some (Raises PermitError obj w))"

subsection \<open>move_energy\<close>

text \<open>
  The arithmetic of \<open>move_energy\<close>, over the reals, with the exceptions Python raises:
  \<open>TypeError\<close> for arithmetic on a value that is not a number, \<open>ZeroDivisionError\<close>,
  and \<open>ValueError\<close> of \<open>math.sqrt\<close> below zero.
\<close>

definition as_num :: "val \<Rightarrow> error + real" where
  "as_num v = (case num_view v of Some x \<Rightarrow> Inr x | None \<Rightarrow> Inl TypeError)"

definition py_div :: "real \<Rightarrow> real \<Rightarrow> error + real" where
  "py_div x y = (if y = 0 then Inl ZeroDivisionError else Inr (x / y))"

definition py_sqrt :: "real \<Rightarrow> error + real" where
  "py_sqrt x = (if x < 0 then Inl ValueError else Inr (sqrt x))"

definition and_then :: "error + 'a \<Rightarrow> ('a \<Rightarrow> error + 'b) \<Rightarrow> error + 'b" where
  "and_then m f = (case m of Inl err \<Rightarrow> Inl err | Inr x \<Rightarrow> f x)"

definition lift :: "error + 'a \<Rightarrow> TXM \<Rightarrow> world \<Rightarrow> 'a outcome option" where
  "lift m txm w = (case m of Inl err \<Rightarrow> Some (Raises err txm w) | Inr x \<Rightarrow> Some (Returns x txm w))"

text \<open>The magnification at the current energy (the lines from \<open>landa\<close> to \<open>mag\<close>).\<close>

definition calc_mag :: "real \<Rightarrow> real \<Rightarrow> val \<Rightarrow> val \<Rightarrow> error + real" where
  "calc_mag zp d prev_energy curr_CCD =
     and_then (as_num prev_energy) (\<lambda>pe.
     and_then (py_div 1240 (pe * 1000)) (\<lambda>landa.
     and_then (py_div (zp * d) (1000 * landa)) (\<lambda>ZP_focal.
     and_then (as_num curr_CCD) (\<lambda>ccd.
     and_then (py_sqrt (ccd ^ 2 - 4 * ccd * ZP_focal)) (\<lambda>inner.
     (let D = (ccd + inner) / 2 in py_div (D - ZP_focal) ZP_focal))))))"

text \<open>The targets at the new energy: \<open>(ZP_WD, new_CCD)\<close>.\<close>

definition calc_targets :: "real \<Rightarrow> real \<Rightarrow> real \<Rightarrow> real \<Rightarrow> error + real \<times> real" where
  "calc_targets zp d mag energy =
     and_then (py_div 1240 (energy * 1000)) (\<lambda>landa.
     and_then (py_div (zp * d) (1000 * landa)) (\<lambda>ZP_focal.
     (let dist_ZP_ccd = mag * ZP_focal + ZP_focal in
      and_then (py_div (dist_ZP_ccd * ZP_focal) (dist_ZP_ccd - ZP_focal)) (\<lambda>ZP_WD.
      (let new_CCD = ZP_WD + dist_ZP_ccd in Inr (ZP_WD, new_CCD))))))"

definition energy_msg :: "env \<Rightarrow> real \<Rightarrow> string" where
  "energy_msg e energy =
     ''Energy '' @ str_of e (VNum energy) @ '' keV not in range '' @
     str_of e (VNum (fst E_RANGE)) @ '' - '' @ str_of e (VNum (snd E_RANGE)) @ '' keV''"

text \<open>The bodies of the two \<open>with self.wait_pvs():\<close> blocks.\<close>

definition first_batch :: "env \<Rightarrow> real \<Rightarrow> real \<Rightarrow> TXM \<Rightarrow> world \<Rightarrow> unit outcome option" where
  "first_batch e ZP_WD energy txm w =
     bind (Some (setattr e ''ZpLocation'' (VNum ZP_WD) txm w)) (\<lambda>_ t1 w1.
     bind (Some (setattr e ''DCMputEnergy'' (VNum energy) t1 w1)) (\<lambda>_ t2 w2.
     Some (setattr e ''GAPputEnergy'' (VNum energy) t2 w2)))"

definition second_batch :: "env \<Rightarrow> real \<Rightarrow> real \<Rightarrow> TXM \<Rightarrow> world \<Rightarrow> unit outcome option" where
  "second_batch e energy gap_offset txm w =
     Some (setattr e ''GAPputEnergy'' (VNum (energy + gap_offset)) txm w)"

text \<open>\<open>move_energy\<close> before the decorator is applied, and as the class has it.\<close>

definition move_energy_func ::
  "env \<Rightarrow> nat \<Rightarrow> real \<Rightarrow> bool \<Rightarrow> real \<Rightarrow> TXM \<Rightarrow> world \<Rightarrow> val outcome option" where
  "move_energy_func e fuel energy constant_mag gap_offset txm w =
     (let in_range = (fst E_RANGE \<le> energy \<and> energy \<le> snd E_RANGE) in
      if \<not> in_range then Some (Raises (EnergyError (energy_msg e energy)) txm w)
      else
        bind (Some (getattr e ''DCMputEnergy'' txm w)) (\<lambda>prev_energy t1 w1.
        bind (Some (getattr e ''CCD_Motor'' t1 w1)) (\<lambda>curr_CCD t2 w2.
        bind (lift (calc_mag (zp_diameter t2) (drn t2) prev_energy curr_CCD) t2 w2) (\<lambda>mag t3 w3.
        bind (Some (setattr e ''DCMmvt'' (VNum 1) t3 w3)) (\<lambda>_ t4 w4.
        bind (lift (calc_targets (zp_diameter t4) (drn t4) mag energy) t4 w4) (\<lambda>targets t5 w5.
        (case targets of (ZP_WD, new_CCD) \<Rightarrow>
        bind (if constant_mag then Some (setattr e ''CCD_Motor'' (VNum new_CCD) t5 w5)
              else Some (Returns () t5 w5)) (\<lambda>_ t6 w6.
        bind (wait_pvs e fuel (first_batch e ZP_WD energy) t6 w6) (\<lambda>_ t7 w7.
        bind (wait_pv e fuel ''EnergyWait'' (VNum 0) 20 t7 w7) (\<lambda>_ t8 w8.
        bind (wait_pvs e fuel (second_batch e energy gap_offset) t8 w8) (\<lambda>_ t9 w9.
        bind (wait_pv e fuel ''EnergyWait'' (VNum 0) 20 t9 w9) (\<lambda>_ t10 w10.
        bind (Some (setattr e ''DCMmvt'' (VNum 0) t10 w10)) (\<lambda>_ t11 w11.
        Some (Returns VNone t11 w11))))))))))))))"

definition move_energy ::
  "env \<Rightarrow> nat \<Rightarrow> real \<Rightarrow> bool \<Rightarrow> real \<Rightarrow> TXM \<Rightarrow> world \<Rightarrow> val outcome option" where
  "move_energy e fuel energy constant_mag gap_offset =
     permit_required_decorator (move_energy_func e fuel energy constant_mag gap_offset)"

section \<open>A simulated outside world\<close>

text \<open>
  One concrete outside world, to run the program on: names are formatted by putting the
  prefix in place of a leading \<open>{ioc_prefix}\<close>, every channel reads \<open>0\<close>, the clock
  advances by one second per reading, and every non-blocking write completes during the
  first sleep after it. Its \<open>float\<close> knows numbers and truth values only, and its
  rendering of numbers the few that the examples print.
\<close>

definition fill_prefix :: "string \<Rightarrow> string \<Rightarrow> error + string" where
  "fill_prefix template prefix =
     (if take 12 template = ''{ioc_prefix}'' then Inr (prefix @ drop 12 template)
      else Inr template)"

definition show_val :: "val \<Rightarrow> string" where
  "show_val v =
     (case v of
        VNone \<Rightarrow> ''None''
      | VBool b \<Rightarrow> (if b then ''True'' else ''False'')
      | VStr s \<Rightarrow> s
      | VNum x \<Rightarrow>
          (if x = 0 then ''0'' else if x = 1 then ''1'' else if x = 2 then ''2''
           else if x = 5 then ''5'' else if x = 10 then ''10'' else if x = 12 then ''12''
           else if x = 20 then ''20'' else if x = - (1 / 2) then ''-0.5''
           else ''<number>''))"

definition to_float :: "val \<Rightarrow> error + val" where
  "to_float v =
     (case v of
        VNone \<Rightarrow> Inl TypeError
      | VBool b \<Rightarrow> Inr (VNum (if b then 1 else 0))
      | VNum x \<Rightarrow> Inr (VNum x)
      | VStr s \<Rightarrow> Inl ValueError)"

definition sim :: env where
  "sim =
     \<lparr>format = fill_prefix, str_of = show_val, float_of = to_float,
      time_at = (\<lambda>k. real k), get_at = (\<lambda>name k. VNum 0), latency = (\<lambda>k. Some 0)\<rparr>"

text \<open>
  Sessions and descriptors for the examples: \<open>TXM(is_attached=False)\<close>, \<open>TXM()\<close> and
  \<open>TXM(has_permit=True)\<close>; the descriptor \<open>ShutterA_Open\<close> of the class, and a descriptor
  declared with \<open>wait=True\<close>.
\<close>

definition detached :: TXM where
  "detached = TXM_init False False [] False False 180 60"

definition attached :: TXM where
  "attached = TXM_init False True [] False False 180 60"

definition operator :: TXM where
  "operator = TXM_init True True [] False False 180 60"

definition shutter_pv :: TxmPV where
  "shutter_pv = new_TxmPV ''32idb:rshtrA:Open'' None VNone True False"

definition blocking_pv :: TxmPV where
  "blocking_pv = new_TxmPV ''32idcTXM:mcs:c1:m2.VAL'' None VNone False True"

section \<open>Observing a call\<close>

fun result_of :: "'a outcome \<Rightarrow> error + 'a" where
  "result_of (Returns x t w) = Inr x"
| "result_of (Raises err t w) = Inl err"

fun session_of :: "'a outcome \<Rightarrow> TXM" where
  "session_of (Returns x t w) = t"
| "session_of (Raises err t w) = t"

fun world_of :: "'a outcome \<Rightarrow> world" where
  "world_of (Returns x t w) = w"
| "world_of (Raises err t w) = w"

section \<open>Notions for stating and proving the properties\<close>

text \<open>
  A completion callback is plain when its descriptor does not have the blocking policy:
  then \<open>complete_put\<close> does not poll, and all it does is set \<open>put_complete\<close>. The
  callbacks that \<open>__set__\<close> registers are plain, since it registers them in the branch
  where \<open>self.wait\<close> is false.
\<close>

definition plain :: "world \<Rightarrow> string \<times> TXM \<times> nat option \<Rightarrow> bool" where
  "plain w c = (case pvs w (fst c) of None \<Rightarrow> True | Some self \<Rightarrow> \<not> wait self)"

definition callbacks_plain :: "world \<Rightarrow> bool" where
  "callbacks_plain w = list_all (plain w) (inflight w)"

text \<open>What a sleep of the script amounts to when the callbacks in flight are plain.\<close>

definition completed :: "TxmPV \<Rightarrow> TxmPV" where
  "completed self = self\<lparr>put_complete := True\<rparr>"

definition fire :: "world \<Rightarrow> string \<times> TXM \<times> nat option \<Rightarrow> world" where
  "fire w c = (case pvs w (fst c) of None \<Rightarrow> w | Some self \<Rightarrow> store (fst c) (completed self) w)"

definition slept :: "real \<Rightarrow> world \<Rightarrow> world" where
  "slept d w =
     foldl fire
       ((emit (EvSleep d) w)\<lparr>inflight := map tick (filter (\<lambda>c. \<not> due c) (inflight w))\<rparr>)
       (filter due (inflight w))"

text \<open>
  A descriptor is pending while its \<open>put_complete\<close> is false. A queue is covered within
  \<open>k\<close> when each of its pending descriptors has a callback in flight that the transport
  delivers after at most \<open>k\<close> more sleeps.
\<close>

definition pending :: "world \<Rightarrow> string \<Rightarrow> bool" where
  "pending w a = (case pvs w a of Some self \<Rightarrow> \<not> put_complete self | None \<Rightarrow> False)"

definition arrives :: "nat \<Rightarrow> world \<Rightarrow> string \<Rightarrow> bool" where
  "arrives k w a =
     list_ex (\<lambda>c. fst c = a \<and> (case snd (snd c) of Some r \<Rightarrow> r \<le> k | None \<Rightarrow> False))
       (inflight w)"

definition covered :: "nat \<Rightarrow> string list \<Rightarrow> world \<Rightarrow> bool" where
  "covered k q w = list_all (\<lambda>a. pending w a \<longrightarrow> arrives k w a) q"


text \<open>
  The descriptor \<open>GAPputEnergy\<close> of the class, and the shared state after
  \<open>TXM(has_permit=True).GAPputEnergy = 8\<close> on the simulated world.
\<close>

definition gap_pv :: TxmPV where
  "gap_pv = new_TxmPV ''32id:ID32us_energy'' None VNone True False"

definition after_write :: world where
  "after_write = world_of (setattr sim ''GAPputEnergy'' (VNum 8) operator (TXM_class sim))"

text \<open>
  A second simulated world, in which the monochromator reads 6.2 keV and the detector
  motor 225; and the events that are transport writes.
\<close>

definition beamline :: env where
  "beamline = sim\<lparr>get_at := (\<lambda>name k. if name = ''32ida:BraggEAO.VAL'' then VNum (31 / 5)
      else if name = ''WHAT GOES HERE!?'' then VNum 225 else VNum 0)\<rparr>"

fun is_write :: "event \<Rightarrow> bool" where
  "is_write (EvPut nm v) = True"
| "is_write (EvPutCallback nm v) = True"
| "is_write ev = False"

section \<open>Basic facts\<close>

lemma get_epics_PV_keeps:
  "get_epics_PV e self txm = (r, self1) \<Longrightarrow>
     namestring self1 = namestring self \<and> curr_value self1 = curr_value self
     \<and> dtype self1 = dtype self \<and> permit_required self1 = permit_required self
     \<and> wait self1 = wait self \<and> put_complete self1 = put_complete self"
  by (auto simp add: get_epics_PV_def Let_def split: option.splits sum.splits if_splits)


lemma get_epics_PV_session:
  "ioc_prefix t = ioc_prefix t' \<Longrightarrow> get_epics_PV e self t = get_epics_PV e self t'"
  by (simp add: get_epics_PV_def pv_name_def split: option.splits)

lemma sleep_idle: "inflight w = [] \<Longrightarrow> sleep e fuel d w = Some (emit (EvSleep d) w)"
  by (simp add: sleep_def emit_def)

subsection \<open>The descriptors of the class\<close>

lemma class_lookup:
  "pvs (TXM_class e) ''ZpLocation'' = None"
  "pvs (TXM_class e) ''DCMputEnergy'' =
     Some (new_TxmPV ''32ida:BraggEAO.VAL'' (Some (float_of e)) (VNum (86 / 10)) True False)"
  "pvs (TXM_class e) ''CCD_Motor'' = Some (new_TxmPV ''WHAT GOES HERE!?'' None (VNum 500) False False)"
  "pvs (TXM_class e) ''DCMmvt'' = Some (new_TxmPV ''32ida:KohzuModeBO.VAL'' None VNone True False)"
  by (simp_all add: TXM_class_def TXM_pvs_def)

lemma class_map_of:
  "map_of (TXM_pvs e) ''ZpLocation'' = None"
  "map_of (TXM_pvs e) ''DCMputEnergy'' =
     Some (new_TxmPV ''32ida:BraggEAO.VAL'' (Some (float_of e)) (VNum (86 / 10)) True False)"
  "map_of (TXM_pvs e) ''GAPputEnergy'' =
     Some (new_TxmPV ''32id:ID32us_energy'' None VNone True False)"
  "map_of (TXM_pvs e) ''CCD_Motor'' =
     Some (new_TxmPV ''WHAT GOES HERE!?'' None (VNum 500) False False)"
  "map_of (TXM_pvs e) ''DCMmvt'' =
     Some (new_TxmPV ''32ida:KohzuModeBO.VAL'' None VNone True False)"
  "map_of (TXM_pvs e) ''EnergyWait'' = Some (new_TxmPV ''ID32us:Busy'' None VNone False False)"
  by (simp_all add: TXM_pvs_def)


lemma GAPputEnergy_declared: "pvs (TXM_class e) ''GAPputEnergy'' = Some gap_pv"
  by (simp add: TXM_class_def TXM_pvs_def gap_pv_def)

subsection \<open>Sleeping while plain callbacks are in flight\<close>

lemma complete_put_plain:
  "\<not> wait self \<Longrightarrow>
     complete_put e fuel a self t w = Some (Returns () t (store a (completed self) w))"
  by (cases fuel) (simp_all add: complete_put_def completed_def)

lemma plain_fire: "plain (fire w c) c' = plain w c'"
  by (simp add: plain_def fire_def store_def completed_def split: option.splits)

lemma run_callbacks_plain:
  "list_all (plain w) cs \<Longrightarrow> run_callbacks e fuel cs w = Some (foldl fire w cs)"
proof (induction cs arbitrary: w)
  case Nil
  then show ?case by simp
next
  case (Cons c cs)
  obtain a t r where c: "c = (a, t, r)" by (cases c)
  from Cons.prems have pc: "plain w c" and rest: "list_all (plain w) cs" by simp_all
  have rest': "list_all (plain (fire w c)) cs"
    using rest by (simp add: list_all_iff plain_fire)
  show ?case
  proof (cases "pvs w a")
    case None
    then have "fire w c = w" by (simp add: fire_def c)
    with None Cons.IH [OF rest'] show ?thesis by (simp add: c)
  next
    case (Some self)
    with pc have "\<not> wait self" by (simp add: plain_def c)
    then have "complete_put e fuel a self t w = Some (Returns () t (store a (completed self) w))"
      by (rule complete_put_plain)
    moreover have "fire w c = store a (completed self) w" using Some by (simp add: fire_def c)
    ultimately show ?thesis using Some Cons.IH [OF rest'] by (simp add: c)
  qed
qed

lemma fire_fields:
  "n_time (fire w c) = n_time w" "n_get (fire w c) = n_get w" "n_put (fire w c) = n_put w"
  "trace (fire w c) = trace w" "inflight (fire w c) = inflight w"
  "class_pv_queue (fire w c) = class_pv_queue w"
  by (simp_all add: fire_def store_def split: option.splits)

lemma foldl_fire_fields:
  "n_time (foldl fire w cs) = n_time w" "n_get (foldl fire w cs) = n_get w"
  "n_put (foldl fire w cs) = n_put w"
  "trace (foldl fire w cs) = trace w" "inflight (foldl fire w cs) = inflight w"
  "class_pv_queue (foldl fire w cs) = class_pv_queue w"
  by (induction cs arbitrary: w) (simp_all add: fire_fields)

lemma completed_idem: "map_option completed (map_option completed x) = map_option completed x"
  by (cases x) (simp_all add: completed_def)

lemma fire_pvs:
  "pvs (fire w c) a = (if a = fst c then map_option completed (pvs w a) else pvs w a)"
  by (simp add: fire_def store_def split: option.splits)

lemma foldl_fire_pvs:
  "pvs (foldl fire w cs) a = (if a \<in> fst ` set cs then map_option completed (pvs w a) else pvs w a)"
  by (induction cs arbitrary: w) (auto simp add: fire_pvs completed_idem)

lemma sleep_plain:
  assumes "callbacks_plain w"
  shows "sleep e fuel d w = Some (slept d w)"
proof -
  let ?w0 = "(emit (EvSleep d) w)\<lparr>inflight := map tick (filter (\<lambda>c. \<not> due c) (inflight w))\<rparr>"
  have "plain ?w0 = plain w" by (rule ext) (simp add: plain_def emit_def)
  with assms have "list_all (plain ?w0) (filter due (inflight w))"
    by (simp add: callbacks_plain_def list_all_iff)
  then show ?thesis
    unfolding sleep_def slept_def by (rule run_callbacks_plain)
qed

lemma slept_fields:
  "n_time (slept d w) = n_time w" "n_get (slept d w) = n_get w" "n_put (slept d w) = n_put w"
  "trace (slept d w) = trace w @ [EvSleep d]"
  "inflight (slept d w) = map tick (filter (\<lambda>c. \<not> due c) (inflight w))"
  "class_pv_queue (slept d w) = class_pv_queue w"
  by (simp_all add: slept_def foldl_fire_fields emit_def)

lemma slept_pvs:
  "pvs (slept d w) a =
     (if a \<in> fst ` set (filter due (inflight w)) then map_option completed (pvs w a) else pvs w a)"
  by (simp add: slept_def foldl_fire_pvs emit_def)

lemma slept_plain:
  assumes "callbacks_plain w"
  shows "callbacks_plain (slept d w)"
proof -
  have "plain (slept d w) c = plain w c'" if "fst c = fst c'" for c c'
    using that by (simp add: plain_def slept_pvs completed_def split: option.splits)
  then have "plain (slept d w) (tick c) = plain w c" for c
    by (simp add: tick_def)
  with assms show ?thesis
    by (simp add: callbacks_plain_def slept_fields list_all_iff)
qed



subsection \<open>Draining the queue\<close>

lemma all_put_complete_iff: "all_put_complete q w = (\<forall>a \<in> set q. \<not> pending w a)"
  by (auto simp add: all_put_complete_def pending_def list_all_iff split: option.splits)

lemma pending_slept:
  assumes "pending (slept d w) a"
  shows "pending w a \<and> a \<notin> fst ` set (filter due (inflight w))"
proof (cases "a \<in> fst ` set (filter due (inflight w))")
  case True
  then have "pvs (slept d w) a = map_option completed (pvs w a)" by (simp only: slept_pvs if_True)
  with assms show ?thesis
    by (cases "pvs w a") (simp_all add: pending_def completed_def)
next
  case False
  then have "pvs (slept d w) a = pvs w a" by (simp only: slept_pvs if_False)
  with assms False show ?thesis by (simp add: pending_def)
qed

lemma arrives_now:
  assumes "arrives 0 w a"
  shows "a \<in> fst ` set (filter due (inflight w))"
proof -
  from assms obtain c where c: "c \<in> set (inflight w)" "fst c = a"
    and r: "(case snd (snd c) of Some r \<Rightarrow> r \<le> 0 | None \<Rightarrow> False)"
    by (auto simp add: arrives_def list_ex_iff)
  from r have "due c" by (simp add: due_def split: option.splits)
  with c show ?thesis by force
qed

lemma arrives_later:
  assumes "arrives (Suc k) w a" and "a \<notin> fst ` set (filter due (inflight w))"
  shows "arrives k (slept d w) a"
proof -
  from assms(1) obtain c where c: "c \<in> set (inflight w)" "fst c = a"
    and r: "(case snd (snd c) of Some r \<Rightarrow> r \<le> Suc k | None \<Rightarrow> False)"
    by (auto simp add: arrives_def list_ex_iff)
  from c assms(2) have nd: "\<not> due c" by force
  from r obtain n where n: "snd (snd c) = Some n" "n \<le> Suc k" by (auto split: option.splits)
  from nd n have "n \<noteq> 0" by (auto simp add: due_def)
  with n have "snd (snd (tick c)) = Some (n - 1)" "n - 1 \<le> k" by (simp_all add: tick_def)
  moreover have "fst (tick c) = a" using c by (simp add: tick_def)
  moreover have "tick c \<in> set (inflight (slept d w))" using c nd by (simp add: slept_fields)
  ultimately show ?thesis by (auto simp add: arrives_def list_ex_iff)
qed

lemma session_queue_slept: "session_queue txm (slept d w) = session_queue txm w"
  by (simp add: session_queue_def slept_fields split: option.splits)

lemma flush_pvs_ready:
  "all_put_complete (session_queue txm w) w \<Longrightarrow>
     flush_pvs e fuel txm w = Some (Returns () (txm\<lparr>pv_queue := Some []\<rparr>) w)"
  by (cases fuel) simp_all

lemma flush_pvs_drains:
  assumes "callbacks_plain w" and "covered k (session_queue txm w) w" and "k < fuel"
  shows "\<exists>w'. flush_pvs e fuel txm w = Some (Returns () (txm\<lparr>pv_queue := Some []\<rparr>) w')
           \<and> all_put_complete (session_queue txm w) w' \<and> callbacks_plain w'
           \<and> class_pv_queue w' = class_pv_queue w \<and> n_time w' = n_time w"
  using assms
proof (induction k arbitrary: w fuel)
  case 0
  show ?case
  proof (cases "all_put_complete (session_queue txm w) w")
    case True
    with "0.prems"(1) show ?thesis by (simp add: flush_pvs_ready)
  next
    case False
    from "0.prems"(3) obtain n where fuel: "fuel = Suc n" by (cases fuel) simp_all
    let ?w1 = "slept (1 / 100) w"
    have s: "sleep e n (1 / 100) w = Some ?w1" using "0.prems"(1) by (rule sleep_plain)
    have "all_put_complete (session_queue txm w) ?w1"
      unfolding all_put_complete_iff
    proof
      fix a assume a: "a \<in> set (session_queue txm w)"
      show "\<not> pending ?w1 a"
      proof
        assume p: "pending ?w1 a"
        then have "pending w a" and nf: "a \<notin> fst ` set (filter due (inflight w))"
          using pending_slept by blast+
        with a "0.prems"(2) have "arrives 0 w a" by (simp add: covered_def list_all_iff)
        with nf arrives_now show False by blast
      qed
    qed
    then have "flush_pvs e n txm ?w1 = Some (Returns () (txm\<lparr>pv_queue := Some []\<rparr>) ?w1)"
      and "all_put_complete (session_queue txm w) ?w1"
      by (simp_all add: flush_pvs_ready session_queue_slept)
    with False s fuel slept_plain [OF "0.prems"(1)] show ?thesis
      by (simp add: slept_fields)
  qed
next
  case (Suc k)
  show ?case
  proof (cases "all_put_complete (session_queue txm w) w")
    case True
    with Suc.prems(1) show ?thesis by (simp add: flush_pvs_ready)
  next
    case False
    from Suc.prems(3) obtain n where fuel: "fuel = Suc n" and n: "k < n" by (cases fuel) simp_all
    let ?w1 = "slept (1 / 100) w"
    have s: "sleep e n (1 / 100) w = Some ?w1" using Suc.prems(1) by (rule sleep_plain)
    have p1: "callbacks_plain ?w1" using Suc.prems(1) by (rule slept_plain)
    have "covered k (session_queue txm ?w1) ?w1"
      unfolding covered_def list_all_iff session_queue_slept
    proof (intro ballI impI)
      fix a assume a: "a \<in> set (session_queue txm w)" and p: "pending ?w1 a"
      from p have "pending w a" and nf: "a \<notin> fst ` set (filter due (inflight w))"
        using pending_slept by blast+
      with a Suc.prems(2) have "arrives (Suc k) w a" by (simp add: covered_def list_all_iff)
      then show "arrives k ?w1 a" using nf by (rule arrives_later)
    qed
    from Suc.IH [OF p1 this n] obtain w' where
      "flush_pvs e n txm ?w1 = Some (Returns () (txm\<lparr>pv_queue := Some []\<rparr>) w')"
      "all_put_complete (session_queue txm ?w1) w'" "callbacks_plain w'"
      "class_pv_queue w' = class_pv_queue ?w1" "n_time w' = n_time ?w1"
      by blast
    with False s fuel show ?thesis
      by (simp add: slept_fields session_queue_slept)
  qed
qed

text \<open>Whatever the callbacks do, a sleep leaves the class attribute \<open>pv_queue\<close> alone.\<close>

lemma complete_put_loop_queue:
  "complete_put_loop e fuel a self t b w = Some out \<Longrightarrow>
     class_pv_queue (world_of out) = class_pv_queue w"
proof (induction fuel arbitrary: self b w)
  case 0
  then show ?case by (auto split: if_splits)
next
  case (Suc n)
  then show ?case
    by (auto simp add: pause_def emit_def store_def transport_get_def Let_def
        split: if_splits prod.splits sum.splits)
qed

lemma complete_put_queue:
  "complete_put e fuel a self t w = Some out \<Longrightarrow>
     class_pv_queue (world_of out) = class_pv_queue w"
  by (auto simp add: complete_put_def store_def split: option.splits outcome.splits
      dest: complete_put_loop_queue)

lemma run_callbacks_queue:
  "run_callbacks e fuel cs w = Some w' \<Longrightarrow> class_pv_queue w' = class_pv_queue w"
proof (induction cs arbitrary: w)
  case Nil
  then show ?case by simp
next
  case (Cons c cs)
  obtain a t r where c: "c = (a, t, r)" by (cases c)
  show ?case
  proof (cases "pvs w a")
    case None
    with Cons show ?thesis by (simp add: c)
  next
    case (Some self)
    with Cons.prems obtain out where o: "complete_put e fuel a self t w = Some out"
      and r: "run_callbacks e fuel cs (world_of out) = Some w'"
      by (auto simp add: c split: option.splits outcome.splits)
    from Cons.IH [OF r] complete_put_queue [OF o] show ?thesis by simp
  qed
qed

lemma sleep_queue: "sleep e fuel d w = Some w' \<Longrightarrow> class_pv_queue w' = class_pv_queue w"
  by (auto simp add: sleep_def emit_def dest: run_callbacks_queue)

lemma flush_pvs_returns:
  "flush_pvs e fuel txm w = Some out \<Longrightarrow>
     result_of out = Inr () \<and> session_of out = txm\<lparr>pv_queue := Some []\<rparr>
     \<and> all_put_complete (session_queue txm w) (world_of out)
     \<and> class_pv_queue (world_of out) = class_pv_queue w"
proof (induction fuel arbitrary: w)
  case 0
  then show ?case by (auto split: if_splits)
next
  case (Suc n)
  show ?case
  proof (cases "all_put_complete (session_queue txm w) w")
    case True
    with Suc.prems show ?thesis by auto
  next
    case False
    with Suc.prems obtain w1 where s: "sleep e n (1 / 100) w = Some w1"
      and f: "flush_pvs e n txm w1 = Some out"
      by (auto split: option.splits)
    from sleep_queue [OF s] have "session_queue txm w1 = session_queue txm w"
      by (simp add: session_queue_def split: option.splits)
    with Suc.IH [OF f] sleep_queue [OF s] show ?thesis by simp
  qed
qed

lemma wait_pvs_enter_flush:
  "wait_pvs_enter e fuel txm w =
     (case flush_pvs e fuel txm w of
        None \<Rightarrow> None
      | Some out \<Rightarrow> Some (Returns () (txm\<lparr>pv_queue := Some []\<rparr>) (world_of out)))"
proof (cases "flush_pvs e fuel txm w")
  case None
  then show ?thesis by (simp add: wait_pvs_enter_def bind_def)
next
  case (Some out)
  from flush_pvs_returns [OF Some] show ?thesis
    using Some by (cases out) (simp_all add: wait_pvs_enter_def bind_def)
qed

lemma wait_pvs_enter_is_flush: "wait_pvs_enter e fuel txm w = flush_pvs e fuel txm w"
proof (cases "flush_pvs e fuel txm w")
  case None
  then show ?thesis by (simp add: wait_pvs_enter_flush)
next
  case (Some out)
  from flush_pvs_returns [OF Some] have "out = Returns () (txm\<lparr>pv_queue := Some []\<rparr>) (world_of out)"
    by (cases out) simp_all
  with Some show ?thesis by (simp add: wait_pvs_enter_flush)
qed

subsection \<open>Writes and the queue\<close>

lemma TxmPV_set_appends:
  assumes "is_attached txm" and "permit_required self \<longrightarrow> has_permit txm"
    and "fst (get_epics_PV e (self\<lparr>curr_value := v\<rparr>) txm) = Inr nm"
  shows "session_queue (session_of (TxmPV_set e a self v txm w))
           (world_of (TxmPV_set e a self v txm w)) = session_queue txm w @ [a]"
    and "pv_queue txm = None \<Longrightarrow> pv_queue other = None \<Longrightarrow>
           session_queue other (world_of (TxmPV_set e a self v txm w))
             = session_queue other w @ [a]"
proof -
  obtain self2 where g: "get_epics_PV e (self\<lparr>curr_value := v\<rparr>) txm = (Inr nm, self2)"
    using assms(3) by (cases "get_epics_PV e (self\<lparr>curr_value := v\<rparr>) txm") simp
  from assms(1,2) g
  show "session_queue (session_of (TxmPV_set e a self v txm w))
           (world_of (TxmPV_set e a self v txm w)) = session_queue txm w @ [a]"
    by (auto simp add: TxmPV_set_def session_queue_def queue_append_def store_def emit_def
        put_callback_def Let_def split: option.splits)
  from assms(1,2) g
  show "pv_queue txm = None \<Longrightarrow> pv_queue other = None \<Longrightarrow>
           session_queue other (world_of (TxmPV_set e a self v txm w))
             = session_queue other w @ [a]"
    by (auto simp add: TxmPV_set_def session_queue_def queue_append_def store_def emit_def
        put_callback_def Let_def split: option.splits)
qed

lemma TxmPV_set_keeps_queue:
  "\<exists>more. session_queue (session_of (TxmPV_set e a self v txm w))
            (world_of (TxmPV_set e a self v txm w)) = session_queue txm w @ more"
  by (auto simp add: TxmPV_set_def session_queue_def queue_append_def store_def emit_def
      put_callback_def Let_def split: option.splits prod.splits sum.splits)

lemma TxmPV_get_keeps_queue:
  "session_queue (session_of (TxmPV_get e a self txm w)) (world_of (TxmPV_get e a self txm w))
     = session_queue txm w"
  by (auto simp add: TxmPV_get_def typecast_def session_queue_def store_def emit_def
      transport_get_def split: option.splits prod.splits sum.splits)

lemma TxmPV_set_callback:
  assumes "is_attached txm" and "permit_required self \<longrightarrow> has_permit txm" and "\<not> wait self"
    and "fst (get_epics_PV e (self\<lparr>curr_value := v\<rparr>) txm) = Inr nm"
    and "pv_queue txm = Some q"
  shows "\<exists>self' w'. TxmPV_set e a self v txm w = Returns () (txm\<lparr>pv_queue := Some (q @ [a])\<rparr>) w'
           \<and> pvs w' = (pvs w)(a \<mapsto> self')
           \<and> trace w' = trace w @ [EvPutCallback nm v]"
proof -
  obtain self2 where g: "get_epics_PV e (self\<lparr>curr_value := v\<rparr>) txm = (Inr nm, self2)"
    using assms(4) by (cases "get_epics_PV e (self\<lparr>curr_value := v\<rparr>) txm") simp
  from get_epics_PV_keeps [OF g] assms(3) have "\<not> wait self2" by simp
  with assms(1,2,5) g show ?thesis
    by (auto simp add: TxmPV_set_def store_def emit_def queue_append_def put_callback_def Let_def)
qed

subsection \<open>The state after one write\<close>

lemma after_write_eval:
  "session_of (setattr sim ''GAPputEnergy'' (VNum 8) operator (TXM_class sim)) = operator"
  "result_of (setattr sim ''GAPputEnergy'' (VNum 8) operator (TXM_class sim)) = Inr ()"
  "map_option put_complete (pvs after_write ''GAPputEnergy'') = Some False"
  "map_option wait (pvs after_write ''GAPputEnergy'') = Some False"
  "class_pv_queue after_write = [''GAPputEnergy'']"
  "inflight after_write = [(''GAPputEnergy'', operator, Some 0)]"
  "trace after_write = [EvPutCallback ''32id:ID32us_energy'' (VNum 8)]"
  unfolding after_write_def setattr_def GAPputEnergy_declared
  by (simp_all add: TxmPV_set_def gap_pv_def
      new_TxmPV_def operator_def TXM_init_def get_epics_PV_def pv_name_def sim_def
      fill_prefix_def queue_append_def put_callback_def store_def emit_def TXM_class_def)

lemma after_write_state:
  "\<not> all_put_complete (session_queue operator after_write) after_write"
  "callbacks_plain after_write"
  "covered 0 (session_queue operator after_write) after_write"
proof -
  from after_write_eval(3,4) obtain self where s: "pvs after_write ''GAPputEnergy'' = Some self"
    "\<not> put_complete self" "\<not> wait self"
    by (cases "pvs after_write ''GAPputEnergy''") simp_all
  have q: "session_queue operator after_write = [''GAPputEnergy'']"
    by (simp add: session_queue_def operator_def TXM_init_def after_write_eval)
  show "\<not> all_put_complete (session_queue operator after_write) after_write"
    by (simp add: q all_put_complete_def s)
  show "callbacks_plain after_write"
    by (simp add: callbacks_plain_def after_write_eval plain_def s)
  show "covered 0 (session_queue operator after_write) after_write"
    by (simp add: q covered_def arrives_def after_write_eval)
qed

subsection \<open>Polling until the deadline\<close>



text \<open>
  With a timeout of \<open>-1\<close> or less the loop of \<open>wait_pv\<close> never reads the clock, so it
  has no deadline: it ends only when the attribute equals the target or reading it raises.
\<close>

lemma complete_put_loop_clock:
  "complete_put_loop e fuel a self t b w = Some out \<Longrightarrow> n_time (world_of out) = n_time w"
proof (induction fuel arbitrary: self b w)
  case 0
  then show ?case by (auto split: if_splits)
next
  case (Suc n)
  then show ?case
    by (auto simp add: pause_def emit_def store_def transport_get_def Let_def
        split: if_splits prod.splits sum.splits)
qed

lemma complete_put_clock:
  "complete_put e fuel a self t w = Some out \<Longrightarrow> n_time (world_of out) = n_time w"
  by (auto simp add: complete_put_def store_def split: option.splits outcome.splits
      dest: complete_put_loop_clock)

lemma run_callbacks_clock:
  "run_callbacks e fuel cs w = Some w' \<Longrightarrow> n_time w' = n_time w"
proof (induction cs arbitrary: w)
  case Nil
  then show ?case by simp
next
  case (Cons c cs)
  obtain a t r where c: "c = (a, t, r)" by (cases c)
  show ?case
  proof (cases "pvs w a")
    case None
    with Cons show ?thesis by (simp add: c)
  next
    case (Some self)
    with Cons.prems obtain out where o: "complete_put e fuel a self t w = Some out"
      and r: "run_callbacks e fuel cs (world_of out) = Some w'"
      by (auto simp add: c split: option.splits outcome.splits)
    from Cons.IH [OF r] complete_put_clock [OF o] show ?thesis by simp
  qed
qed

lemma sleep_clock: "sleep e fuel d w = Some w' \<Longrightarrow> n_time w' = n_time w"
  by (auto simp add: sleep_def emit_def dest: run_callbacks_clock)

lemma getattr_clock: "n_time (world_of (getattr e name txm w)) = n_time w"
  by (auto simp add: getattr_def TxmPV_get_def typecast_def store_def emit_def
      transport_get_def split: option.splits prod.splits sum.splits)

lemma wait_pv_loop_no_deadline:
  assumes "T \<le> - 1" and "wait_pv_loop e fuel name target_val T start txm w = Some out"
  shows "n_time (world_of out) = n_time w"
  using assms(2)
proof (induction fuel arbitrary: txm w)
  case 0
  then show ?case by (auto split: if_splits)
next
  case (Suc n)
  show ?case
  proof (cases "is_attached txm")
    case False
    with Suc.prems show ?thesis by auto
  next
    case True
    show ?thesis
    proof (cases "getattr e name txm w")
      case (Raises err t1 w1)
      with True Suc.prems getattr_clock [of e name txm w] show ?thesis by auto
    next
      case (Returns pv_val t1 w1)
      from getattr_clock [of e name txm w] Returns have c1: "n_time w1 = n_time w" by simp
      show ?thesis
      proof (cases "py_ne pv_val target_val")
        case False
        with True Returns Suc.prems c1 show ?thesis by auto
      next
        case ne: True
        from assms(1) have nt: "\<not> T > - 1" by simp
        with True Returns ne Suc.prems obtain w3 where
          s: "sleep e n (1 / 100) w1 = Some w3"
          and l: "wait_pv_loop e n name target_val T start t1 w3 = Some out"
          by (auto split: option.splits)
        from Suc.IH [OF l] sleep_clock [OF s] c1 show ?thesis by simp
      qed
    qed
  qed
qed

section \<open>Writes without permit\<close>

text \<open>
  Claim C1, as the code has it. A write to a permit-required control point by a session
  without permit returns normally and issues no transport write, whether the session is
  attached or not. When the session is attached the write is suppressed: the descriptor
  is left as it was (cached value and completion flag included) and the only event is
  the warning. When the session is not attached there is no suppression: the value is
  cached, \<open>put_complete\<close> is set, and there is no warning.
\<close>

theorem set_without_permit:
  assumes "permit_required self" and "\<not> has_permit txm"
  shows "result_of (TxmPV_set e a self v txm w) = Inr ()
       \<and> session_of (TxmPV_set e a self v txm w) = txm
       \<and> inflight (world_of (TxmPV_set e a self v txm w)) = inflight w
       \<and> class_pv_queue (world_of (TxmPV_set e a self v txm w)) = class_pv_queue w
       \<and> (is_attached txm \<longrightarrow>
            pvs (world_of (TxmPV_set e a self v txm w)) a = Some self
          \<and> trace (world_of (TxmPV_set e a self v txm w)) = trace w @ [EvWarn (warn_msg self)])
       \<and> (\<not> is_attached txm \<longrightarrow>
            pvs (world_of (TxmPV_set e a self v txm w)) a =
              Some (self\<lparr>curr_value := v, put_complete := True\<rparr>)
          \<and> trace (world_of (TxmPV_set e a self v txm w)) = trace w)"
  using assms by (simp add: TxmPV_set_def store_def emit_def)

theorem set_without_permit_witness:
  "permit_required shutter_pv \<and> \<not> has_permit attached \<and> is_attached attached
   \<and> \<not> has_permit detached \<and> \<not> is_attached detached
   \<and> result_of (TxmPV_set sim ''ShutterA_Open'' shutter_pv (VNum 1) attached (TXM_class sim)) = Inr ()
   \<and> map_option curr_value
       (pvs (world_of (TxmPV_set sim ''ShutterA_Open'' shutter_pv (VNum 1) attached (TXM_class sim)))
          ''ShutterA_Open'') = Some VNone
   \<and> trace (world_of (TxmPV_set sim ''ShutterA_Open'' shutter_pv (VNum 1) attached (TXM_class sim)))
       = [EvWarn (warn_msg shutter_pv)]
   \<and> map_option curr_value
       (pvs (world_of (TxmPV_set sim ''ShutterA_Open'' shutter_pv (VNum 1) detached (TXM_class sim)))
          ''ShutterA_Open'') = Some (VNum 1)
   \<and> trace (world_of (TxmPV_set sim ''ShutterA_Open'' shutter_pv (VNum 1) detached (TXM_class sim)))
       = []"
proof -
  have p: "permit_required shutter_pv" by (simp add: shutter_pv_def new_TxmPV_def)
  have a: "\<not> has_permit attached" "is_attached attached"
    by (simp_all add: attached_def TXM_init_def)
  have d: "\<not> has_permit detached" "\<not> is_attached detached"
    by (simp_all add: detached_def TXM_init_def)
  have c: "curr_value shutter_pv = VNone" by (simp add: shutter_pv_def new_TxmPV_def)
  have t: "trace (TXM_class sim) = []" by (simp add: TXM_class_def)
  show ?thesis
    using p a d c t
      set_without_permit [OF p a(1), of sim "''ShutterA_Open''" "VNum 1" "TXM_class sim"]
      set_without_permit [OF p d(1), of sim "''ShutterA_Open''" "VNum 1" "TXM_class sim"]
    by simp
qed

text \<open>
  The claim as written fails for a session that is not attached:
  \<open>TXM(is_attached=False).ShutterA_Open = 1\<close> caches the value \<open>1\<close> over the default
  \<open>None\<close>, and warns of nothing.
\<close>

theorem set_without_permit_detached_counterexample:
  "map_option permit_required (pvs (TXM_class sim) ''ShutterA_Open'') = Some True
   \<and> \<not> has_permit detached
   \<and> map_option curr_value (pvs (TXM_class sim) ''ShutterA_Open'') = Some VNone
   \<and> map_option curr_value
       (pvs (world_of (setattr sim ''ShutterA_Open'' (VNum 1) detached (TXM_class sim)))
          ''ShutterA_Open'') = Some (VNum 1)
   \<and> trace (world_of (setattr sim ''ShutterA_Open'' (VNum 1) detached (TXM_class sim))) = []"
proof -
  have l: "pvs (TXM_class sim) ''ShutterA_Open'' = Some shutter_pv"
    by (simp add: TXM_class_def TXM_pvs_def shutter_pv_def)
  show ?thesis
    by (simp add: l setattr_def)
       (simp add: shutter_pv_def new_TxmPV_def detached_def TXM_init_def TxmPV_set_def
          store_def TXM_class_def)
qed

section \<open>Writes with the blocking policy\<close>

text \<open>
  Claim C3 does not hold of the code. A write through a descriptor declared with
  \<open>wait=True\<close>, on an attached session with the permit it needs, issues the blocking
  transport write and then raises \<open>TypeError\<close>: \<open>__set__\<close> calls \<open>self.complete_put()\<close>
  without the session. Nothing polls, and \<open>put_complete\<close> stays \<open>False\<close>.
\<close>

theorem set_blocking_raises:
  assumes "is_attached txm" and "permit_required self \<longrightarrow> has_permit txm" and "wait self"
    and "fst (get_epics_PV e (self\<lparr>curr_value := v\<rparr>) txm) = Inr nm"
  shows "result_of (TxmPV_set e a self v txm w) = Inl TypeError
       \<and> map_option put_complete (pvs (world_of (TxmPV_set e a self v txm w)) a) = Some False
       \<and> trace (world_of (TxmPV_set e a self v txm w)) = trace w @ [EvPut nm v]"
proof -
  obtain self2 where g: "get_epics_PV e (self\<lparr>curr_value := v\<rparr>) txm = (Inr nm, self2)"
    using assms(4) by (cases "get_epics_PV e (self\<lparr>curr_value := v\<rparr>) txm") simp
  from get_epics_PV_keeps [OF g] assms(3) have "wait self2" by simp
  with assms(1,2) g show ?thesis
    by (auto simp add: TxmPV_set_def store_def emit_def queue_append_def Let_def
        split: option.splits)
qed

theorem set_blocking_raises_witness:
  "is_attached operator \<and> has_permit operator \<and> wait blocking_pv
   \<and> fst (get_epics_PV sim (blocking_pv\<lparr>curr_value := VNum 3\<rparr>) operator) = Inr ''32idcTXM:mcs:c1:m2.VAL''
   \<and> result_of (TxmPV_set sim ''Motor'' blocking_pv (VNum 3) operator (TXM_class sim)) = Inl TypeError
   \<and> map_option put_complete
        (pvs (world_of (TxmPV_set sim ''Motor'' blocking_pv (VNum 3) operator (TXM_class sim))) ''Motor'')
        = Some False
   \<and> trace (world_of (TxmPV_set sim ''Motor'' blocking_pv (VNum 3) operator (TXM_class sim)))
        = [EvPut ''32idcTXM:mcs:c1:m2.VAL'' (VNum 3)]"
proof -
  have a: "is_attached operator" by (simp add: operator_def TXM_init_def)
  have p: "permit_required blocking_pv \<longrightarrow> has_permit operator"
    by (simp add: operator_def TXM_init_def)
  have b: "wait blocking_pv" by (simp add: blocking_pv_def new_TxmPV_def)
  have n: "fst (get_epics_PV sim (blocking_pv\<lparr>curr_value := VNum 3\<rparr>) operator)
             = Inr ''32idcTXM:mcs:c1:m2.VAL''"
    by (simp add: get_epics_PV_def blocking_pv_def new_TxmPV_def pv_name_def sim_def
        fill_prefix_def operator_def TXM_init_def)
  have t: "trace (TXM_class sim) = []" by (simp add: TXM_class_def)
  have h: "has_permit operator" by (simp add: operator_def TXM_init_def)
  show ?thesis
    using a h b n t set_blocking_raises [OF a p b n, of "''Motor''" "TXM_class sim"] by simp
qed

section \<open>Simulation: a session that is not attached\<close>



section \<open>The energy range\<close>

text \<open>
  Claim C7. With permit, \<open>move_energy\<close> at an energy below 5 or above 10 keV raises
  \<open>EnergyError\<close>, whose message holds the energy and both bounds, and leaves the session
  and the shared state exactly as they were: no read, no write, no event.
\<close>

theorem energy_out_of_range:
  assumes "has_permit txm" and "energy < 5 \<or> 10 < energy"
  shows "move_energy e fuel energy constant_mag gap_offset txm w =
           Some (Raises (EnergyError
             (''Energy '' @ str_of e (VNum energy) @ '' keV not in range '' @
              str_of e (VNum 5) @ '' - '' @ str_of e (VNum 10) @ '' keV'')) txm w)"
  using assms
  by (auto simp add: move_energy_def permit_required_decorator_def move_energy_func_def
      E_RANGE_def energy_msg_def)

theorem energy_out_of_range_witness:
  "has_permit operator \<and> (10::real) < 12
   \<and> move_energy sim 1 12 True 0 operator (TXM_class sim) =
       Some (Raises (EnergyError ''Energy 12 keV not in range 5 - 10 keV'')
         operator (TXM_class sim))"
proof -
  have p: "has_permit operator" by (simp add: operator_def TXM_init_def)
  have r: "(12::real) < 5 \<or> 10 < (12::real)" by simp
  show ?thesis
    using p energy_out_of_range [OF p r, of sim 1 True 0 "TXM_class sim"]
    by (simp add: sim_def show_val_def)
qed

section \<open>Waiting on a session that is not attached\<close>

text \<open>
  Claim C2 does not hold of the code. On a session that is not attached, \<open>wait_pv\<close>
  sleeps for the settle interval, reads the clock, never enters its loop and so never
  reads the attribute, and then falls off the end of the function: it returns \<open>None\<close>,
  not \<open>True\<close>.
\<close>

theorem wait_pv_detached:
  assumes "\<not> is_attached txm" and "sleep e fuel POLL_INTERVAL w = Some w1"
  shows "wait_pv e fuel name target_val timeout txm w =
           Some (Returns VNone txm (w1\<lparr>n_time := Suc (n_time w1)\<rparr>))"
  using assms by (cases fuel) (simp_all add: wait_pv_def time_time_def)

theorem wait_pv_detached_witness:
  "\<not> is_attached detached
   \<and> sleep sim 5 POLL_INTERVAL (TXM_class sim) = Some (emit (EvSleep POLL_INTERVAL) (TXM_class sim))
   \<and> map_option result_of (wait_pv sim 5 ''EnergyWait'' (VNum 0) 20 detached (TXM_class sim))
       = Some (Inr VNone)"
proof -
  have d: "\<not> is_attached detached" by (simp add: detached_def TXM_init_def)
  have s: "sleep sim 5 POLL_INTERVAL (TXM_class sim)
             = Some (emit (EvSleep POLL_INTERVAL) (TXM_class sim))"
    by (rule sleep_idle) (simp add: TXM_class_def)
  show ?thesis
    using d s wait_pv_detached [OF d s, of "''EnergyWait''" "VNum 0" 20] by simp
qed

section \<open>Waiting with a timeout\<close>





section \<open>Write batches\<close>

text \<open>
  Claim C9. Entering \<open>wait_pvs\<close>: whenever the entry returns, it returns normally, the
  session's queue is a new empty one, and every member of the queue as it was at entry
  has \<open>put_complete\<close>. While a member is still pending the entry does not return: it
  sleeps 0.01 s and tries again. And it does return once the pending members'
  completions have been delivered, which takes at most \<open>k\<close> more sleeps when the queue is
  covered within \<open>k\<close>. There is one queue per session, so one batch at a time.
\<close>

theorem wait_pvs_enter_drains:
  "(\<forall>out. wait_pvs_enter e fuel txm w = Some out \<longrightarrow>
        result_of out = Inr () \<and> pv_queue (session_of out) = Some []
      \<and> session_queue (session_of out) (world_of out) = []
      \<and> all_put_complete (session_queue txm w) (world_of out))
   \<and> (\<not> all_put_complete (session_queue txm w) w \<longrightarrow>
        wait_pvs_enter e 0 txm w = None
      \<and> wait_pvs_enter e (Suc n) txm w =
          (case sleep e n (1 / 100) w of
             None \<Rightarrow> None
           | Some w1 \<Rightarrow> wait_pvs_enter e n txm w1))
   \<and> (callbacks_plain w \<and> covered k (session_queue txm w) w \<and> k < fuel \<longrightarrow>
        (\<exists>out. wait_pvs_enter e fuel txm w = Some out))"
proof (intro conjI allI impI)
  fix out assume r: "wait_pvs_enter e fuel txm w = Some out"
  then obtain o1 where f: "flush_pvs e fuel txm w = Some o1"
    and out: "out = Returns () (txm\<lparr>pv_queue := Some []\<rparr>) (world_of o1)"
    by (auto simp add: wait_pvs_enter_flush split: option.splits)
  from flush_pvs_returns [OF f] out
  show "result_of out = Inr ()" "pv_queue (session_of out) = Some []"
    "session_queue (session_of out) (world_of out) = []"
    "all_put_complete (session_queue txm w) (world_of out)"
    by (simp_all add: session_queue_def)
next
  assume "\<not> all_put_complete (session_queue txm w) w"
  then show "wait_pvs_enter e 0 txm w = None"
    "wait_pvs_enter e (Suc n) txm w =
       (case sleep e n (1 / 100) w of None \<Rightarrow> None | Some w1 \<Rightarrow> wait_pvs_enter e n txm w1)"
    by (simp_all add: wait_pvs_enter_def bind_def split: option.splits)
next
  assume "callbacks_plain w \<and> covered k (session_queue txm w) w \<and> k < fuel"
  then have "\<exists>w'. flush_pvs e fuel txm w = Some (Returns () (txm\<lparr>pv_queue := Some []\<rparr>) w')"
    using flush_pvs_drains [of w k txm fuel e] by blast
  then show "\<exists>out. wait_pvs_enter e fuel txm w = Some out"
    by (auto simp add: wait_pvs_enter_flush)
qed

theorem wait_pvs_enter_drains_witness:
  "\<not> all_put_complete (session_queue operator after_write) after_write
   \<and> callbacks_plain after_write
   \<and> covered 0 (session_queue operator after_write) after_write \<and> (0::nat) < 1
   \<and> wait_pvs_enter sim 0 operator after_write = None
   \<and> (\<exists>out. wait_pvs_enter sim 1 operator after_write = Some out
         \<and> result_of out = Inr () \<and> pv_queue (session_of out) = Some []
         \<and> all_put_complete (session_queue operator after_write) (world_of out))"
proof -
  note t = wait_pvs_enter_drains [of sim 1 operator after_write 0 0]
  note s = after_write_state
  have k: "(0::nat) < 1" by simp
  from t [THEN conjunct2, THEN conjunct1] s(1)
  have n: "wait_pvs_enter sim 0 operator after_write = None" by blast
  from t [THEN conjunct2, THEN conjunct2] s(2,3) k
  obtain out where o: "wait_pvs_enter sim 1 operator after_write = Some out" by blast
  from t [THEN conjunct1] o
  have "result_of out = Inr () \<and> pv_queue (session_of out) = Some []
      \<and> all_put_complete (session_queue operator after_write) (world_of out)"
    by blast
  with s k n o show ?thesis by blast
qed

text \<open>
  Claim C10. A write on an attached session with the permit it needs appends the
  descriptor to the queue that \<open>txm.pv_queue\<close> evaluates to, whether or not a batch was
  opened; a session that has assigned no queue of its own uses the class attribute, so
  the descriptor shows in the queue of every other such session. No write and no read
  removes a member. \<open>flush_pvs\<close> returns only with every member complete, and then the
  session's queue is its own empty list (the class attribute is left as it is); while a
  member is pending it sleeps and tries again; it returns once the completions have been
  delivered. The assignment \<open>self.pv_queue = []\<close> of \<open>wait_pvs\<close> follows a \<open>flush_pvs\<close>
  and changes nothing. A new session has no queue of its own.
\<close>

theorem pv_queue_discipline:
  "(is_attached txm \<and> (permit_required self \<longrightarrow> has_permit txm)
      \<and> fst (get_epics_PV e (self\<lparr>curr_value := v\<rparr>) txm) = Inr nm \<longrightarrow>
        session_queue (session_of (TxmPV_set e a self v txm w))
          (world_of (TxmPV_set e a self v txm w)) = session_queue txm w @ [a]
      \<and> (pv_queue txm = None \<and> pv_queue other = None \<longrightarrow>
           session_queue other (world_of (TxmPV_set e a self v txm w))
             = session_queue other w @ [a]))
   \<and> (\<exists>more. session_queue (session_of (TxmPV_set e a self v txm w))
          (world_of (TxmPV_set e a self v txm w)) = session_queue txm w @ more)
   \<and> session_queue (session_of (TxmPV_get e a self txm w)) (world_of (TxmPV_get e a self txm w))
       = session_queue txm w
   \<and> (\<forall>out. flush_pvs e fuel txm w = Some out \<longrightarrow>
        result_of out = Inr ()
      \<and> session_queue (session_of out) (world_of out) = []
      \<and> all_put_complete (session_queue txm w) (world_of out)
      \<and> class_pv_queue (world_of out) = class_pv_queue w)
   \<and> (\<not> all_put_complete (session_queue txm w) w \<longrightarrow>
        flush_pvs e 0 txm w = None
      \<and> flush_pvs e (Suc n) txm w =
          (case sleep e n (1 / 100) w of
             None \<Rightarrow> None
           | Some w1 \<Rightarrow> flush_pvs e n txm w1))
   \<and> (callbacks_plain w \<and> covered k (session_queue txm w) w \<and> k < fuel \<longrightarrow>
        (\<exists>out. flush_pvs e fuel txm w = Some out))
   \<and> wait_pvs_enter e fuel txm w = flush_pvs e fuel txm w
   \<and> session_queue (TXM_init permit att prefix shutter_A shutter_B zp d) w = class_pv_queue w"
proof (intro conjI allI impI)
  assume h: "is_attached txm \<and> (permit_required self \<longrightarrow> has_permit txm)
      \<and> fst (get_epics_PV e (self\<lparr>curr_value := v\<rparr>) txm) = Inr nm"
  then show "session_queue (session_of (TxmPV_set e a self v txm w))
          (world_of (TxmPV_set e a self v txm w)) = session_queue txm w @ [a]"
    using TxmPV_set_appends(1) by blast
  assume "pv_queue txm = None \<and> pv_queue other = None"
  with h show "session_queue other (world_of (TxmPV_set e a self v txm w))
             = session_queue other w @ [a]"
    using TxmPV_set_appends(2) by blast
next
  show "\<exists>more. session_queue (session_of (TxmPV_set e a self v txm w))
          (world_of (TxmPV_set e a self v txm w)) = session_queue txm w @ more"
    by (rule TxmPV_set_keeps_queue)
next
  show "session_queue (session_of (TxmPV_get e a self txm w))
          (world_of (TxmPV_get e a self txm w)) = session_queue txm w"
    by (rule TxmPV_get_keeps_queue)
next
  fix out assume f: "flush_pvs e fuel txm w = Some out"
  from flush_pvs_returns [OF f]
  show "result_of out = Inr ()" "session_queue (session_of out) (world_of out) = []"
    "all_put_complete (session_queue txm w) (world_of out)"
    "class_pv_queue (world_of out) = class_pv_queue w"
    by (simp_all add: session_queue_def)
next
  assume "\<not> all_put_complete (session_queue txm w) w"
  then show "flush_pvs e 0 txm w = None"
    "flush_pvs e (Suc n) txm w =
       (case sleep e n (1 / 100) w of None \<Rightarrow> None | Some w1 \<Rightarrow> flush_pvs e n txm w1)"
    by simp_all
next
  assume "callbacks_plain w \<and> covered k (session_queue txm w) w \<and> k < fuel"
  then show "\<exists>out. flush_pvs e fuel txm w = Some out"
    using flush_pvs_drains [of w k txm fuel e] by blast
next
  show "wait_pvs_enter e fuel txm w = flush_pvs e fuel txm w"
    by (rule wait_pvs_enter_is_flush)
next
  show "session_queue (TXM_init permit att prefix shutter_A shutter_B zp d) w = class_pv_queue w"
    by (simp add: session_queue_def TXM_init_def)
qed

theorem pv_queue_discipline_witness:
  "is_attached operator \<and> has_permit operator
   \<and> fst (get_epics_PV sim (gap_pv\<lparr>curr_value := VNum 8\<rparr>) operator) = Inr ''32id:ID32us_energy''
   \<and> pv_queue operator = None \<and> pv_queue attached = None
   \<and> session_queue operator (TXM_class sim) = []
   \<and> session_queue
        (session_of (TxmPV_set sim ''GAPputEnergy'' gap_pv (VNum 8) operator (TXM_class sim)))
        (world_of (TxmPV_set sim ''GAPputEnergy'' gap_pv (VNum 8) operator (TXM_class sim)))
        = [''GAPputEnergy'']
   \<and> session_queue attached
        (world_of (TxmPV_set sim ''GAPputEnergy'' gap_pv (VNum 8) operator (TXM_class sim)))
        = [''GAPputEnergy'']
   \<and> \<not> all_put_complete (session_queue operator after_write) after_write
   \<and> callbacks_plain after_write
   \<and> covered 0 (session_queue operator after_write) after_write \<and> (0::nat) < 1
   \<and> flush_pvs sim 0 operator after_write = None
   \<and> (\<exists>out. flush_pvs sim 1 operator after_write = Some out
         \<and> session_queue (session_of out) (world_of out) = []
         \<and> all_put_complete (session_queue operator after_write) (world_of out)
         \<and> session_queue attached (world_of out) = [''GAPputEnergy''])"
proof -
  note t1 = pv_queue_discipline [where txm = operator and self = gap_pv and e = sim
      and v = "VNum 8" and nm = "''32id:ID32us_energy''" and a = "''GAPputEnergy''"
      and w = "TXM_class sim" and other = attached and fuel = 1 and n = 0 and k = 0]
  note t2 = pv_queue_discipline [where txm = operator and self = gap_pv and e = sim
      and v = "VNum 8" and nm = "''32id:ID32us_energy''" and a = "''GAPputEnergy''"
      and w = after_write and other = attached and fuel = 1 and n = 0 and k = 0]
  note s = after_write_state
  have a: "is_attached operator" "permit_required gap_pv \<longrightarrow> has_permit operator"
    "pv_queue operator = None" "pv_queue attached = None" "has_permit operator"
    by (simp_all add: operator_def attached_def TXM_init_def)
  have g: "fst (get_epics_PV sim (gap_pv\<lparr>curr_value := VNum 8\<rparr>) operator)
             = Inr ''32id:ID32us_energy''"
    by (simp add: get_epics_PV_def gap_pv_def new_TxmPV_def pv_name_def sim_def
        fill_prefix_def operator_def TXM_init_def)
  have q0: "session_queue operator (TXM_class sim) = []"
    "session_queue attached (TXM_class sim) = []"
    by (simp_all add: session_queue_def a TXM_class_def)
  from t1 [THEN conjunct1] a g q0
  have w1: "session_queue
        (session_of (TxmPV_set sim ''GAPputEnergy'' gap_pv (VNum 8) operator (TXM_class sim)))
        (world_of (TxmPV_set sim ''GAPputEnergy'' gap_pv (VNum 8) operator (TXM_class sim)))
        = [''GAPputEnergy'']"
    and w2: "session_queue attached
        (world_of (TxmPV_set sim ''GAPputEnergy'' gap_pv (VNum 8) operator (TXM_class sim)))
        = [''GAPputEnergy'']"
    by simp_all
  have k: "(0::nat) < 1" by simp
  from t2 s(1) have n: "flush_pvs sim 0 operator after_write = None" by blast
  from t2 s(2,3) k obtain out where o: "flush_pvs sim 1 operator after_write = Some out"
    by blast
  from t2 o have p: "session_queue (session_of out) (world_of out) = []"
    "all_put_complete (session_queue operator after_write) (world_of out)"
    "class_pv_queue (world_of out) = class_pv_queue after_write"
    by blast+
  from p(3) have "session_queue attached (world_of out) = [''GAPputEnergy'']"
    by (simp add: session_queue_def a after_write_eval)
  with a g q0 w1 w2 s k n o p show ?thesis by blast
qed

section \<open>The first batch of move_energy\<close>

text \<open>
  Claim C4 does not hold of the code. Class \<open>TXM\<close> declares no descriptor \<open>ZpLocation\<close>,
  so \<open>self.ZpLocation = ZP_WD\<close> creates a plain instance attribute: nothing is written to
  the transport and nothing is queued. The first batch of \<open>move_energy\<close>, started on the
  empty queue that \<open>wait_pvs\<close> leaves, registers two writes, the monochromator energy and
  the undulator-gap energy, not three.
\<close>

theorem first_batch_registers_two:
  assumes "is_attached txm" and "has_permit txm" and "pv_queue txm = Some []"
    and "pvs w ''ZpLocation'' = None"
    and "pvs w ''DCMputEnergy'' = Some dcm" and "\<not> wait dcm"
    and "pvs w ''GAPputEnergy'' = Some gap" and "\<not> wait gap"
    and "fst (get_epics_PV e (dcm\<lparr>curr_value := VNum energy\<rparr>) txm) = Inr n1"
    and "fst (get_epics_PV e (gap\<lparr>curr_value := VNum energy\<rparr>) txm) = Inr n2"
  shows "\<exists>t' w'. first_batch e ZP_WD energy txm w = Some (Returns () t' w')
           \<and> pv_queue t' = Some [''DCMputEnergy'', ''GAPputEnergy'']
           \<and> attrs t' ''ZpLocation'' = Some (VNum ZP_WD)
           \<and> trace w' = trace w @ [EvPutCallback n1 (VNum energy), EvPutCallback n2 (VNum energy)]"
proof -
  let ?t1 = "txm\<lparr>attrs := (attrs txm)(''ZpLocation'' \<mapsto> VNum ZP_WD)\<rparr>"
  have s1: "setattr e ''ZpLocation'' (VNum ZP_WD) txm w = Returns () ?t1 w"
    using assms(4) by (simp add: setattr_def)
  have a1: "is_attached ?t1" "permit_required dcm \<longrightarrow> has_permit ?t1" "pv_queue ?t1 = Some []"
    using assms(1-3) by simp_all
  have g1: "fst (get_epics_PV e (dcm\<lparr>curr_value := VNum energy\<rparr>) ?t1) = Inr n1"
    using assms(9) get_epics_PV_session [of ?t1 txm] by simp
  from TxmPV_set_callback [OF a1(1,2) assms(6) g1 a1(3), of "''DCMputEnergy''" w]
  obtain self1 w1 where
    s2: "TxmPV_set e ''DCMputEnergy'' dcm (VNum energy) ?t1 w =
           Returns () (?t1\<lparr>pv_queue := Some ([] @ [''DCMputEnergy''])\<rparr>) w1"
    and p1: "pvs w1 = (pvs w)(''DCMputEnergy'' \<mapsto> self1)"
    and tr1: "trace w1 = trace w @ [EvPutCallback n1 (VNum energy)]"
    by blast
  let ?t2 = "?t1\<lparr>pv_queue := Some ([] @ [''DCMputEnergy''])\<rparr>"
  have l2: "pvs w1 ''GAPputEnergy'' = Some gap" using p1 assms(7) by simp
  have a2: "is_attached ?t2" "permit_required gap \<longrightarrow> has_permit ?t2"
    "pv_queue ?t2 = Some [''DCMputEnergy'']"
    using assms(1,2) by simp_all
  have g2: "fst (get_epics_PV e (gap\<lparr>curr_value := VNum energy\<rparr>) ?t2) = Inr n2"
    using assms(10) get_epics_PV_session [of ?t2 txm] by simp
  from TxmPV_set_callback [OF a2(1,2) assms(8) g2 a2(3), of "''GAPputEnergy''" w1]
  obtain self2 w2 where
    s3: "TxmPV_set e ''GAPputEnergy'' gap (VNum energy) ?t2 w1 =
           Returns () (?t2\<lparr>pv_queue := Some ([''DCMputEnergy''] @ [''GAPputEnergy''])\<rparr>) w2"
    and tr2: "trace w2 = trace w1 @ [EvPutCallback n2 (VNum energy)]"
    by blast
  have "first_batch e ZP_WD energy txm w =
          Some (Returns () (?t2\<lparr>pv_queue := Some ([''DCMputEnergy''] @ [''GAPputEnergy''])\<rparr>) w2)"
    using s1 s2 s3 assms(5) l2 by (simp add: first_batch_def bind_def setattr_def)
  with tr1 tr2 show ?thesis by simp
qed

theorem first_batch_registers_two_witness:
  "is_attached (operator\<lparr>pv_queue := Some []\<rparr>) \<and> has_permit (operator\<lparr>pv_queue := Some []\<rparr>)
   \<and> pvs (TXM_class sim) ''ZpLocation'' = None
   \<and> map_option wait (pvs (TXM_class sim) ''DCMputEnergy'') = Some False
   \<and> map_option wait (pvs (TXM_class sim) ''GAPputEnergy'') = Some False
   \<and> (\<exists>t' w'. first_batch sim 135 (93 / 10) (operator\<lparr>pv_queue := Some []\<rparr>) (TXM_class sim)
                  = Some (Returns () t' w')
          \<and> pv_queue t' = Some [''DCMputEnergy'', ''GAPputEnergy'']
          \<and> attrs t' ''ZpLocation'' = Some (VNum 135)
          \<and> trace w' = [EvPutCallback ''32ida:BraggEAO.VAL'' (VNum (93 / 10)),
                         EvPutCallback ''32id:ID32us_energy'' (VNum (93 / 10))])"
proof -
  let ?t = "operator\<lparr>pv_queue := Some []\<rparr>"
  let ?dcm = "new_TxmPV ''32ida:BraggEAO.VAL'' (Some (float_of sim)) (VNum (86 / 10)) True False"
  have a: "is_attached ?t" "has_permit ?t" "pv_queue ?t = Some []"
    by (simp_all add: operator_def TXM_init_def)
  have w: "\<not> wait ?dcm" "\<not> wait gap_pv" by (simp_all add: new_TxmPV_def gap_pv_def)
  have g1: "fst (get_epics_PV sim (?dcm\<lparr>curr_value := VNum (93 / 10)\<rparr>) ?t)
              = Inr ''32ida:BraggEAO.VAL''"
    by (simp add: get_epics_PV_def new_TxmPV_def pv_name_def sim_def fill_prefix_def
        operator_def TXM_init_def)
  have g2: "fst (get_epics_PV sim (gap_pv\<lparr>curr_value := VNum (93 / 10)\<rparr>) ?t)
              = Inr ''32id:ID32us_energy''"
    by (simp add: get_epics_PV_def gap_pv_def new_TxmPV_def pv_name_def sim_def fill_prefix_def
        operator_def TXM_init_def)
  have t: "trace (TXM_class sim) = []" by (simp add: TXM_class_def)
  show ?thesis
    using a w t
      first_batch_registers_two [OF a(1,2,3) class_lookup(1) class_lookup(2) w(1)
        GAPputEnergy_declared w(2) g1 g2, of 135]
    by (simp add: class_lookup GAPputEnergy_declared)
qed

text \<open>
  A whole run of \<open>move_energy\<close> from 6.2 keV to 9.3 keV, on the second simulated world:
  six transport writes, none of them for the zone plate, whose target ends up in the
  instance attribute.
\<close>

lemma sqrt_2025: "sqrt 2025 = 45"
  by (rule real_sqrt_unique) simp_all

lemma calc1: "calc_mag 180 60 (VNum (31 / 5)) (VNum 225) = Inr (3 / 2)"
  by (simp add: calc_mag_def and_then_def as_num_def py_div_def py_sqrt_def sqrt_2025)

lemma calc2: "calc_targets 180 60 (3 / 2) (93 / 10) = Inr (135, 675 / 2)"
  by (simp add: calc_targets_def and_then_def py_div_def)

lemma move_energy_run:
  "map_option (\<lambda>out. (result_of out, filter is_write (trace (world_of out)),
      attrs (session_of out) ''ZpLocation''))
    (move_energy beamline (Suc (Suc 0)) (93 / 10) True 0 operator (TXM_class beamline))
   = Some (Inr VNone,
      [EvPutCallback ''32ida:KohzuModeBO.VAL'' (VNum 1),
       EvPutCallback ''WHAT GOES HERE!?'' (VNum (675 / 2)),
       EvPutCallback ''32ida:BraggEAO.VAL'' (VNum (93 / 10)),
       EvPutCallback ''32id:ID32us_energy'' (VNum (93 / 10)),
       EvPutCallback ''32id:ID32us_energy'' (VNum (93 / 10)),
       EvPutCallback ''32ida:KohzuModeBO.VAL'' (VNum 0)],
      Some (VNum 135))"
  by (simp add: move_energy_def permit_required_decorator_def move_energy_func_def
      E_RANGE_def operator_def TXM_init_def TXM_class_def class_map_of
      getattr_def setattr_def TxmPV_get_def TxmPV_set_def typecast_def get_epics_PV_def
      pv_name_def new_TxmPV_def beamline_def sim_def fill_prefix_def to_float_def
      transport_get_def store_def emit_def bind_def lift_def calc1 calc2
      queue_append_def put_callback_def wait_pvs_def wait_pvs_enter_def first_batch_def
      second_batch_def session_queue_def all_put_complete_def sleep_def due_def tick_def
      complete_put_def wait_pv_def POLL_INTERVAL_def time_time_def py_ne_def Let_def)

end
